theory Spec2Isabelle
  imports Complex_Main
begin

section \<open>JavaScript numbers\<close>

text \<open>
  The forecasting module computes with the JavaScript type \<open>number\<close>. A value of that
  type is modelled as an exact real, or one of the three special values that the
  arithmetic of the module can produce: \<open>NaN\<close> (from \<open>0 / 0\<close>) and the two
  infinities (from a nonzero quotient by zero). Rounding error of the 64-bit
  representation is not modelled: where an exact product or quotient lies on a
  threshold of \<open>Math.round\<close> or of a comparison (a half, as in
  \<open>0.3 * 1 + 0.7 * 6 = 4.5\<close>), the code, which computes it in doubles, may fall on
  the other side. The theorems below are statements about the exact arithmetic. Nor
  is the sign of zero modelled: every divisor in the module
  is a count, a literal, or a value guarded by \<open>!== 0\<close>, so a negative zero never
  divides.
\<close>

datatype number = Fin real | PosInf | NegInf | NaN

fun isNaN :: "number \<Rightarrow> bool" where
  "isNaN NaN = True"
| "isNaN _ = False"

fun isFin :: "number \<Rightarrow> bool" where
  "isFin (Fin _) = True"
| "isFin _ = False"

text \<open>The sign of a number that is not \<open>NaN\<close>, and the infinity of a given sign.\<close>

fun sign_of :: "number \<Rightarrow> real" where
  "sign_of (Fin a) = sgn a"
| "sign_of PosInf = 1"
| "sign_of NegInf = - 1"
| "sign_of NaN = 0"

definition inf_of_sign :: "real \<Rightarrow> number" where
  "inf_of_sign s = (if 0 < s then PosInf else if s < 0 then NegInf else NaN)"

fun nneg :: "number \<Rightarrow> number" where
  "nneg (Fin a) = Fin (- a)"
| "nneg PosInf = NegInf"
| "nneg NegInf = PosInf"
| "nneg NaN = NaN"

fun nadd :: "number \<Rightarrow> number \<Rightarrow> number" where
  "nadd (Fin a) (Fin b) = Fin (a + b)"
| "nadd NaN _ = NaN"
| "nadd _ NaN = NaN"
| "nadd PosInf NegInf = NaN"
| "nadd NegInf PosInf = NaN"
| "nadd PosInf _ = PosInf"
| "nadd _ PosInf = PosInf"
| "nadd NegInf _ = NegInf"
| "nadd _ NegInf = NegInf"

definition nsub :: "number \<Rightarrow> number \<Rightarrow> number" where
  "nsub a b = nadd a (nneg b)"

fun nmul :: "number \<Rightarrow> number \<Rightarrow> number" where
  "nmul (Fin a) (Fin b) = Fin (a * b)"
| "nmul NaN _ = NaN"
| "nmul _ NaN = NaN"
| "nmul a b = inf_of_sign (sign_of a * sign_of b)"

text \<open>
  Division: a finite quotient when the divisor is a nonzero real; \<open>0 / 0\<close> is \<open>NaN\<close>
  and \<open>a / 0\<close> is the infinity of the sign of \<open>a\<close> (the divisor being \<open>+0\<close>).
\<close>

fun ndiv :: "number \<Rightarrow> number \<Rightarrow> number" where
  "ndiv (Fin a) (Fin b) = (if b = 0 then inf_of_sign (sgn a) else Fin (a / b))"
| "ndiv NaN _ = NaN"
| "ndiv _ NaN = NaN"
| "ndiv (Fin a) _ = Fin 0"
| "ndiv a (Fin b) = inf_of_sign (sign_of a * (if b < 0 then - 1 else 1))"
| "ndiv _ _ = NaN"

fun nabs :: "number \<Rightarrow> number" where
  "nabs (Fin a) = Fin \<bar>a\<bar>"
| "nabs NaN = NaN"
| "nabs _ = PosInf"

text \<open>\<open>Math.sqrt\<close>: \<open>NaN\<close> below zero.\<close>

fun nsqrt :: "number \<Rightarrow> number" where
  "nsqrt (Fin a) = (if a < 0 then NaN else Fin (sqrt a))"
| "nsqrt PosInf = PosInf"
| "nsqrt _ = NaN"

text \<open>\<open>Math.round\<close> rounds to the nearest integer, a half upwards: \<open>\<lfloor>x + 1/2\<rfloor>\<close>.\<close>

fun nround :: "number \<Rightarrow> number" where
  "nround (Fin a) = Fin (of_int (round a))"
| "nround x = x"

text \<open>The comparisons \<open><\<close>, \<open><=\<close>, \<open>>\<close>, \<open>>=\<close>: false as soon as one side is \<open>NaN\<close>.\<close>

fun nlt :: "number \<Rightarrow> number \<Rightarrow> bool" where
  "nlt (Fin a) (Fin b) = (a < b)"
| "nlt NaN _ = False"
| "nlt _ NaN = False"
| "nlt _ NegInf = False"
| "nlt NegInf _ = True"
| "nlt PosInf _ = False"
| "nlt _ PosInf = True"

definition nle :: "number \<Rightarrow> number \<Rightarrow> bool" where
  "nle a b = (\<not> isNaN a \<and> \<not> isNaN b \<and> (nlt a b \<or> a = b))"

definition ngt :: "number \<Rightarrow> number \<Rightarrow> bool" where
  "ngt a b = nlt b a"

definition nge :: "number \<Rightarrow> number \<Rightarrow> bool" where
  "nge a b = nle b a"

text \<open>\<open>Math.max\<close> and \<open>Math.min\<close> of two arguments: \<open>NaN\<close> if either is.\<close>

definition nmax :: "number \<Rightarrow> number \<Rightarrow> number" where
  "nmax a b = (if isNaN a \<or> isNaN b then NaN else if nlt a b then b else a)"

definition nmin :: "number \<Rightarrow> number \<Rightarrow> number" where
  "nmin a b = (if isNaN a \<or> isNaN b then NaN else if nlt b a then b else a)"

text \<open>\<open>xs.reduce((a, b) => a + b, 0)\<close>.\<close>

definition nsum :: "number list \<Rightarrow> number" where
  "nsum xs = foldl nadd (Fin 0) xs"

text \<open>
  \<open>xs.slice(-w)\<close> for a count \<open>w\<close>: the last \<open>w\<close> elements, all of them when
  \<open>w\<close> exceeds the length, and also when \<open>w = 0\<close> (\<open>slice(-0)\<close> is \<open>slice(0)\<close>).
\<close>

definition slice_last :: "nat \<Rightarrow> 'a list \<Rightarrow> 'a list" where
  "slice_last w xs = (if w = 0 then xs else drop (length xs - w) xs)"

section \<open>Data model\<close>

record SalesDataPoint =
  date :: string
  quantity_sold :: number
  is_festival :: bool

text \<open>An entry \<open>{date, value}\<close> of \<open>ForecastResult.predictions\<close>.\<close>

record Prediction =
  pdate :: string
  val :: number

record Metrics =
  mae :: number
  rmse :: number
  mape :: number

record ForecastResult =
  model :: string
  predictions :: "Prediction list"
  metrics :: Metrics
  confidence :: number

datatype RiskLevel = Low | Medium | High

record InventoryRecommendation =
  forecastedDemand :: number
  recommendedStock :: number
  safetyStock :: number
  riskLevel :: RiskLevel
  reasoning :: string

record BusinessImpact =
  overstockReduction :: number
  stockoutReduction :: number
  costSavings :: number
  revenueIncrease :: number

text \<open>Reading a property of \<open>undefined\<close> throws a \<open>TypeError\<close>.\<close>

datatype error = TypeError

section \<open>Metrics evaluator\<close>

text \<open>
  One pass of the loop body of \<open>calculateMetrics\<close> at index \<open>i\<close>, on the three
  accumulators \<open>(mae, mse, mape)\<close>.
\<close>

definition metrics_step ::
  "number list \<Rightarrow> number list \<Rightarrow> number \<times> number \<times> number \<Rightarrow> nat
    \<Rightarrow> number \<times> number \<times> number" where
  "metrics_step actual predicted acc i =
     (case acc of (mae_acc, mse_acc, mape_acc) \<Rightarrow>
        let err = nabs (nsub (actual ! i) (predicted ! i)) in
          (nadd mae_acc err,
           nadd mse_acc (nmul err err),
           if actual ! i \<noteq> Fin 0
           then nadd mape_acc (nabs (ndiv (nsub (actual ! i) (predicted ! i)) (actual ! i)))
           else mape_acc))"

definition calculateMetrics :: "number list \<Rightarrow> number list \<Rightarrow> Metrics" where
  "calculateMetrics actual predicted =
     (let n = min (length actual) (length predicted) in
      case foldl (metrics_step actual predicted) (Fin 0, Fin 0, Fin 0) [0..<n] of
        (mae_acc, mse_acc, mape_acc) \<Rightarrow>
          \<lparr> mae = ndiv mae_acc (Fin (real n)),
            rmse = nsqrt (ndiv mse_acc (Fin (real n))),
            mape = nmul (ndiv mape_acc (Fin (real n))) (Fin 100) \<rparr>)"

section \<open>Forecast models\<close>

text \<open>
  The date of tomorrow, which the source reads from the clock, is the parameter
  \<open>tomorrow\<close>. The window of the moving average is a count.
\<close>

definition movingAverage :: "string \<Rightarrow> SalesDataPoint list \<Rightarrow> nat \<Rightarrow> ForecastResult" where
  "movingAverage tomorrow data window =
     (let values = map quantity_sold data;
          fitted = map (\<lambda>i. \<lparr> pdate = date (data ! i),
                               val = nround (ndiv (nsum (take window (drop (i - window) values)))
                                                  (Fin (real window))) \<rparr>)
                       [window..<length values];
          lastWindowValues = slice_last window values;
          nextPrediction = ndiv (nsum lastWindowValues) (Fin (real window));
          preds = fitted @ [\<lparr> pdate = tomorrow, val = nround nextPrediction \<rparr>];
          actual = drop window values;
          predicted = map val (butlast preds);
          m = calculateMetrics actual predicted
      in \<lparr> model = ''Moving Average'',
           predictions = preds,
           metrics = m,
           confidence = nmax (Fin 0) (nsub (Fin 100) (mape m)) \<rparr>)"

text \<open>
  Exponential smoothing reads \<open>data[0].date\<close> first, which throws on an empty history.
  The loop body at index \<open>i\<close> acts on the running forecast and the predictions pushed
  so far.
\<close>

definition es_step ::
  "number \<Rightarrow> SalesDataPoint list \<Rightarrow> number list \<Rightarrow> number \<times> Prediction list \<Rightarrow> nat
    \<Rightarrow> number \<times> Prediction list" where
  "es_step alpha data values st i =
     (case st of (forecast_acc, preds) \<Rightarrow>
        let f = nadd (nmul alpha (values ! i)) (nmul (nsub (Fin 1) alpha) forecast_acc)
        in (f, preds @ [\<lparr> pdate = date (data ! i), val = nround f \<rparr>]))"

definition exponentialSmoothing ::
  "string \<Rightarrow> SalesDataPoint list \<Rightarrow> number \<Rightarrow> error + ForecastResult" where
  "exponentialSmoothing tomorrow data alpha =
     (case data of
        [] \<Rightarrow> Inl TypeError
      | d0 # _ \<Rightarrow>
          let values = map quantity_sold data;
              start = (quantity_sold d0, [\<lparr> pdate = date d0, val = nround (quantity_sold d0) \<rparr>])
          in case foldl (es_step alpha data values) start [1..<length values] of
               (forecast_acc, fitted) \<Rightarrow>
                 let preds = fitted @ [\<lparr> pdate = tomorrow, val = nround forecast_acc \<rparr>];
                     actual = values;
                     predicted = map val (butlast preds);
                     m = calculateMetrics actual predicted
                 in Inr \<lparr> model = ''Exponential Smoothing'',
                          predictions = preds,
                          metrics = m,
                          confidence = nmax (Fin 0) (nsub (Fin 100) (mape m)) \<rparr>)"

text \<open>The summation loop of the regression, on \<open>(sumX, sumY, sumXY, sumXX)\<close>.\<close>

definition lr_step ::
  "number list \<Rightarrow> number \<times> number \<times> number \<times> number \<Rightarrow> nat
    \<Rightarrow> number \<times> number \<times> number \<times> number" where
  "lr_step values acc i =
     (case acc of (sumX, sumY, sumXY, sumXX) \<Rightarrow>
        (nadd sumX (Fin (real i)),
         nadd sumY (values ! i),
         nadd sumXY (nmul (Fin (real i)) (values ! i)),
         nadd sumXX (nmul (Fin (real i)) (Fin (real i)))))"

definition linearRegression :: "string \<Rightarrow> SalesDataPoint list \<Rightarrow> ForecastResult" where
  "linearRegression tomorrow data =
     (let n = length data;
          values = map quantity_sold data
      in case foldl (lr_step values) (Fin 0, Fin 0, Fin 0, Fin 0) [0..<n] of
           (sumX, sumY, sumXY, sumXX) \<Rightarrow>
             let slope = ndiv (nsub (nmul (Fin (real n)) sumXY) (nmul sumX sumY))
                              (nsub (nmul (Fin (real n)) sumXX) (nmul sumX sumX));
                 intercept = ndiv (nsub sumY (nmul slope sumX)) (Fin (real n));
                 fitted = map (\<lambda>i. \<lparr> pdate = date (data ! i),
                                      val = nmax (Fin 0)
                                              (nround (nadd (nmul slope (Fin (real i))) intercept)) \<rparr>)
                              [0..<n];
                 preds = fitted @
                   [\<lparr> pdate = tomorrow,
                      val = nmax (Fin 0) (nround (nadd (nmul slope (Fin (real n))) intercept)) \<rparr>];
                 actual = values;
                 predicted = map val (butlast preds);
                 m = calculateMetrics actual predicted
             in \<lparr> model = ''Linear Regression'',
                  predictions = preds,
                  metrics = m,
                  confidence = nmax (Fin 0) (nsub (Fin 100) (mape m)) \<rparr>)"

section \<open>Model selector\<close>

text \<open>
  \<open>Array.prototype.sort\<close> with a comparator is stable, and a comparator result of
  \<open>NaN\<close> counts as \<open>+0\<close>. It is modelled as the insertion sort that engines run on
  short arrays: each element, in array order, goes before the first element it compares
  strictly less than. (For a comparator that is not a consistent order the standard
  leaves the result to the implementation.)
\<close>

fun insert_sorted :: "('a \<Rightarrow> 'a \<Rightarrow> number) \<Rightarrow> 'a \<Rightarrow> 'a list \<Rightarrow> 'a list" where
  "insert_sorted cmp x [] = [x]"
| "insert_sorted cmp x (y # ys) =
     (if nlt (cmp x y) (Fin 0) then x # y # ys else y # insert_sorted cmp x ys)"

definition array_sort :: "('a \<Rightarrow> 'a \<Rightarrow> number) \<Rightarrow> 'a list \<Rightarrow> 'a list" where
  "array_sort cmp xs = foldl (\<lambda>sorted x. insert_sorted cmp x sorted) [] xs"

definition by_mape :: "ForecastResult \<Rightarrow> ForecastResult \<Rightarrow> number" where
  "by_mape a b = nsub (mape (metrics a)) (mape (metrics b))"

text \<open>The defaults \<open>window = 7\<close> and \<open>alpha = 0.3\<close> apply.\<close>

definition selectBestModel :: "string \<Rightarrow> SalesDataPoint list \<Rightarrow> error + ForecastResult" where
  "selectBestModel tomorrow data =
     (case exponentialSmoothing tomorrow data (Fin 0.3) of
        Inl e \<Rightarrow> Inl e
      | Inr es \<Rightarrow>
          let models = [movingAverage tomorrow data 7, es, linearRegression tomorrow data]
          in Inr (hd (array_sort by_mape models)))"

section \<open>Inventory recommender\<close>

definition calculateInventoryRecommendation ::
  "ForecastResult \<Rightarrow> number \<Rightarrow> error + InventoryRecommendation" where
  "calculateInventoryRecommendation fc currentStock =
     (case predictions fc of
        [] \<Rightarrow> Inl TypeError
      | p # ps \<Rightarrow>
          let forecastedDemand = val (last (p # ps));
              safetyStockPercent =
                (if ngt (confidence fc) (Fin 80) then Fin 0.1
                 else if ngt (confidence fc) (Fin 60) then Fin 0.15 else Fin 0.2);
              safetyStock = nround (nmul forecastedDemand safetyStockPercent);
              recommendedStock = nadd forecastedDemand safetyStock
          in Inr (if nge currentStock (nmul recommendedStock (Fin 1.5))
                  then \<lparr> forecastedDemand = forecastedDemand,
                         recommendedStock = recommendedStock,
                         safetyStock = safetyStock,
                         riskLevel = Medium,
                         reasoning =
                           ''Overstock detected. Consider reducing orders or promotional discounts.'' \<rparr>
                  else if nlt currentStock (nmul forecastedDemand (Fin 0.8))
                  then \<lparr> forecastedDemand = forecastedDemand,
                         recommendedStock = recommendedStock,
                         safetyStock = safetyStock,
                         riskLevel = High,
                         reasoning =
                           ''Critical stock level. Immediate restocking recommended to avoid stockouts.'' \<rparr>
                  else \<lparr> forecastedDemand = forecastedDemand,
                         recommendedStock = recommendedStock,
                         safetyStock = safetyStock,
                         riskLevel = Low,
                         reasoning =
                           ''Stock levels are optimal. Monitor for seasonal changes.'' \<rparr>))"

section \<open>Business impact estimator\<close>

text \<open>\<open>x || 1\<close>: the falsy numbers are zero and \<open>NaN\<close>.\<close>

definition or_one :: "number \<Rightarrow> number" where
  "or_one x = (if x = Fin 0 \<or> x = NaN then Fin 1 else x)"

definition calculateBusinessImpact ::
  "number \<Rightarrow> number \<Rightarrow> number \<Rightarrow> number \<Rightarrow> BusinessImpact" where
  "calculateBusinessImpact currentStock recommended demand unitPrice =
     (let overstockAmount = nmax (Fin 0) (nsub currentStock (nmul recommended (Fin 1.2)));
          understockRisk = nmax (Fin 0) (nsub recommended currentStock);
          overstockReduction =
            nround (nmul (ndiv overstockAmount (or_one currentStock)) (Fin 100));
          stockoutReduction = (if ngt understockRisk (Fin 0) then Fin 75 else Fin 95);
          holdingCostPercent = Fin 0.15;
          costSavings = nround (nmul (nmul overstockAmount unitPrice) holdingCostPercent);
          potentialLostSales =
            (if ngt understockRisk (Fin 0) then nmul understockRisk (Fin 0.3) else Fin 0);
          revenueIncrease = nround (nmul potentialLostSales unitPrice)
      in \<lparr> overstockReduction = overstockReduction,
           stockoutReduction = stockoutReduction,
           costSavings = costSavings,
           revenueIncrease = revenueIncrease \<rparr>)"

section \<open>Insight generator\<close>

text \<open>
  A template literal is kept as its pieces, text and interpolated numbers, so that no
  number formatting has to be fixed.
\<close>

datatype piece = Txt string | Num number

datatype InsightType = Trend | Festival | Anomaly | Seasonal

datatype Impact = Positive | Negative | Neutral

record Insight =
  itype :: InsightType
  title :: string
  description :: "piece list"
  actionable :: string
  impact :: Impact

text \<open>\<open>Math.max(...xs)\<close> and \<open>Math.min(...xs)\<close>, which start from the infinities.\<close>

definition max_of :: "number list \<Rightarrow> number" where
  "max_of xs = foldl nmax NegInf xs"

definition min_of :: "number list \<Rightarrow> number" where
  "min_of xs = foldl nmin PosInf xs"

definition generateInsights :: "SalesDataPoint list \<Rightarrow> ForecastResult \<Rightarrow> Insight list" where
  "generateInsights data fc =
     (let values = map quantity_sold data;
          recentAvg = ndiv (nsum (slice_last 7 values)) (Fin 7);
          overallAvg = ndiv (nsum values) (Fin (real (length values)));
          increasing = ngt recentAvg overallAvg;
          trendInsight =
            (if ngt (ndiv (nabs (nsub recentAvg overallAvg)) overallAvg) (Fin 0.15)
             then [\<lparr> itype = Trend,
                     title = ''Demand is '' @ (if increasing then ''increasing'' else ''decreasing''),
                     description =
                       [Txt ''Recent sales ('', Num (nround recentAvg), Txt '' units/day) are '',
                        Num (nabs (nround (nmul (ndiv (nsub recentAvg overallAvg) overallAvg)
                                                (Fin 100)))),
                        Txt ''% '', Txt (if increasing then ''higher'' else ''lower''),
                        Txt '' than average.''],
                     actionable =
                       (if increasing then ''Increase inventory levels to meet growing demand''
                        else ''Consider promotional activities to boost sales''),
                     impact = (if increasing then Positive else Negative) \<rparr>]
             else []);
          festivalDays = filter is_festival data;
          festivalInsight =
            (if length festivalDays > 0
             then let festivalAvg = ndiv (nsum (map quantity_sold festivalDays))
                                         (Fin (real (length festivalDays)));
                      nonFestivalAvg =
                        ndiv (nsum (map quantity_sold (filter (\<lambda>d. \<not> is_festival d) data)))
                             (Fin (real (length data) - real (length festivalDays)))
                  in if ngt festivalAvg (nmul nonFestivalAvg (Fin 1.3))
                     then [\<lparr> itype = Festival,
                             title = ''Festival Impact Detected'',
                             description =
                               [Txt ''Sales increase by '',
                                Num (nround (nmul (ndiv (nsub festivalAvg nonFestivalAvg)
                                                        nonFestivalAvg) (Fin 100))),
                                Txt ''% during festivals ('', Num (nround festivalAvg),
                                Txt '' vs '', Num (nround nonFestivalAvg), Txt '' units/day).''],
                             actionable =
                               ''Stock up 2-3 days before festivals. Plan promotional bundles.'',
                             impact = Positive \<rparr>]
                     else []
             else []);
          maxv = max_of values;
          minv = min_of values;
          anomalyInsight =
            (if ngt maxv (nmul overallAvg (Fin 2)) \<or> nlt minv (nmul overallAvg (Fin 0.3))
             then [\<lparr> itype = Anomaly,
                     title = ''Sales Volatility Detected'',
                     description =
                       [Txt ''Sales vary significantly ('', Num minv, Txt '' to '', Num maxv,
                        Txt '' units). High demand variability observed.''],
                     actionable =
                       ''Maintain higher safety stock to buffer against unpredictable demand.'',
                     impact = Neutral \<rparr>]
             else []);
          confidenceInsight =
            (if nlt (confidence fc) (Fin 70)
             then [\<lparr> itype = Seasonal,
                     title = ''Limited Forecast Confidence'',
                     description =
                       [Txt ''Model confidence is '', Num (nround (confidence fc)),
                        Txt ''%. More historical data would improve accuracy.''],
                     actionable = ''Continue collecting sales data. Review forecast weekly.'',
                     impact = Neutral \<rparr>]
             else [])
      in trendInsight @ festivalInsight @ anomalyInsight @ confidenceInsight)"

section \<open>Forecast dashboard\<close>

text \<open>
  The state of the dashboard component, with the two effects it has on the outside: the
  alerts shown, and the rows inserted into the \<open>forecasts\<close> table.
\<close>

record Product =
  pid :: string
  name :: string
  brand :: string
  current_stock :: number
  unit_price :: number

record ForecastRow =
  product_id :: string
  shop_id :: string
  forecast_date :: string
  predicted_demand :: number
  recommended_stock :: number
  safety_stock :: number
  risk_level :: RiskLevel
  model_used :: string
  confidence_score :: number

record WhatIfResults =
  adjustedDemand :: number
  adjustedRecommendedStock :: number
  newRiskLevel :: RiskLevel
  whatIfImpact :: BusinessImpact

record Dashboard =
  shopId :: string
  selectedProduct :: "Product option"
  salesData :: "SalesDataPoint list"
  forecast :: "ForecastResult option"
  recommendation :: "InventoryRecommendation option"
  insights :: "Insight list"
  businessImpact :: "BusinessImpact option"
  generating :: bool
  whatIfStock :: number
  whatIfDiscount :: number
  whatIfResults :: "WhatIfResults option"
  alerts :: "string list"
  forecasts_table :: "ForecastRow list"

definition insufficient_history :: string where
  "insufficient_history = ''Need at least 7 days of sales data to generate forecast''"

text \<open>
  \<open>generateForecast\<close>: the guard alerts and returns; otherwise the pipeline runs, the
  four results are stored and one row is inserted. The pacing delay is not modelled.
\<close>

definition generateForecast :: "string \<Rightarrow> Dashboard \<Rightarrow> error + Dashboard" where
  "generateForecast tomorrow s =
     (case selectedProduct s of
        None \<Rightarrow> Inr (s\<lparr> alerts := alerts s @ [insufficient_history] \<rparr>)
      | Some product \<Rightarrow>
          if length (salesData s) < 7
          then Inr (s\<lparr> alerts := alerts s @ [insufficient_history] \<rparr>)
          else
            case selectBestModel tomorrow (salesData s) of
              Inl e \<Rightarrow> Inl e
            | Inr bestForecast \<Rightarrow>
                case calculateInventoryRecommendation bestForecast (current_stock product) of
                  Inl e \<Rightarrow> Inl e
                | Inr inventoryRec \<Rightarrow>
                    let aiInsights = generateInsights (salesData s) bestForecast;
                        imp = calculateBusinessImpact (current_stock product)
                                (recommendedStock inventoryRec) (forecastedDemand inventoryRec)
                                (unit_price product)
                    in Inr (s\<lparr> forecast := Some bestForecast,
                                recommendation := Some inventoryRec,
                                insights := aiInsights,
                                businessImpact := Some imp,
                                forecasts_table := forecasts_table s @
                                  [\<lparr> product_id = pid product,
                                     shop_id = shopId s,
                                     forecast_date = pdate (last (predictions bestForecast)),
                                     predicted_demand = forecastedDemand inventoryRec,
                                     recommended_stock = recommendedStock inventoryRec,
                                     safety_stock = safetyStock inventoryRec,
                                     risk_level = riskLevel inventoryRec,
                                     model_used = model bestForecast,
                                     confidence_score = confidence bestForecast \<rparr>],
                                generating := False \<rparr>))"

definition runWhatIfSimulation :: "Dashboard \<Rightarrow> Dashboard" where
  "runWhatIfSimulation s =
     (case recommendation s of
        None \<Rightarrow> s
      | Some rec \<Rightarrow>
          (case selectedProduct s of
             None \<Rightarrow> s
           | Some product \<Rightarrow>
               let adjDemand =
                     nmul (forecastedDemand rec)
                       (nadd (Fin 1) (nmul (ndiv (whatIfDiscount s) (Fin 100)) (Fin 0.5)));
                   adjRecommendedStock = nround (nadd adjDemand (safetyStock rec));
                   risk =
                     (if nge (whatIfStock s) (nmul adjRecommendedStock (Fin 1.5)) then Medium
                      else if nlt (whatIfStock s) (nmul adjDemand (Fin 0.8)) then High
                      else Low);
                   imp = calculateBusinessImpact (whatIfStock s) adjRecommendedStock adjDemand
                           (nmul (unit_price product)
                              (nsub (Fin 1) (ndiv (whatIfDiscount s) (Fin 100))))
               in s\<lparr> whatIfResults :=
                      Some \<lparr> adjustedDemand = nround adjDemand,
                             adjustedRecommendedStock = adjRecommendedStock,
                             newRiskLevel = risk,
                             whatIfImpact = imp \<rparr> \<rparr>))"

section \<open>Closed forms of the specification\<close>

text \<open>
  The sums that the specification of the metrics evaluator speaks of, over the first
  \<open>n\<close> indices of two sequences of reals: absolute errors, squared errors, and the
  absolute percentage errors at the indices whose actual value is not zero.
\<close>

definition abs_errors :: "real list \<Rightarrow> real list \<Rightarrow> nat \<Rightarrow> real" where
  "abs_errors actual predicted n = (\<Sum>i<n. \<bar>actual ! i - predicted ! i\<bar>)"

definition sq_errors :: "real list \<Rightarrow> real list \<Rightarrow> nat \<Rightarrow> real" where
  "sq_errors actual predicted n = (\<Sum>i<n. (actual ! i - predicted ! i)\<^sup>2)"

definition pct_errors :: "real list \<Rightarrow> real list \<Rightarrow> nat \<Rightarrow> real" where
  "pct_errors actual predicted n =
     (\<Sum>i<n. if actual ! i \<noteq> 0 then \<bar>(actual ! i - predicted ! i) / actual ! i\<bar> else 0)"

text \<open>
  The percentage sum as the specification writes it, the absolute error over the actual
  value itself rather than over its absolute value.
\<close>

definition pct_errors_as_written :: "real list \<Rightarrow> real list \<Rightarrow> nat \<Rightarrow> real" where
  "pct_errors_as_written actual predicted n =
     (\<Sum>i<n. if actual ! i \<noteq> 0 then \<bar>actual ! i - predicted ! i\<bar> / actual ! i else 0)"

text \<open>
  The three means over \<open>n = min (length actual) (length predicted)\<close> indices, for a
  given percentage sum; with no index to compare, each mean is \<open>0 / 0\<close>.
\<close>

definition metrics_form ::
  "(real list \<Rightarrow> real list \<Rightarrow> nat \<Rightarrow> real) \<Rightarrow> real list \<Rightarrow> real list \<Rightarrow> Metrics" where
  "metrics_form pct actual predicted =
     (let n = min (length actual) (length predicted)
      in if n = 0 then \<lparr> mae = NaN, rmse = NaN, mape = NaN \<rparr>
         else \<lparr> mae = Fin (abs_errors actual predicted n / real n),
                rmse = Fin (sqrt (sq_errors actual predicted n / real n)),
                mape = Fin (100 * (pct actual predicted n / real n)) \<rparr>)"

definition metrics_closed_form :: "real list \<Rightarrow> real list \<Rightarrow> Metrics" where
  "metrics_closed_form = metrics_form pct_errors"

definition metrics_as_written :: "real list \<Rightarrow> real list \<Rightarrow> Metrics" where
  "metrics_as_written = metrics_form pct_errors_as_written"

text \<open>A history with the given quantities, one per day, none of them a festival.\<close>

definition history_of :: "real list \<Rightarrow> SalesDataPoint list" where
  "history_of qs =
     map (\<lambda>q. \<lparr> date = ''day'', quantity_sold = Fin q, is_festival = False \<rparr>) qs"

text \<open>A forecast that ends with the forward prediction \<open>d\<close>, at confidence \<open>c\<close>.\<close>

definition forecast_with :: "Prediction list \<Rightarrow> number \<Rightarrow> number \<Rightarrow> Metrics \<Rightarrow> ForecastResult" where
  "forecast_with fitted d c m =
     \<lparr> model = ''Moving Average'',
       predictions = fitted @ [\<lparr> pdate = ''tomorrow'', val = d \<rparr>],
       metrics = m,
       confidence = c \<rparr>"

definition zero_metrics :: Metrics where
  "zero_metrics = \<lparr> mae = Fin 0, rmse = Fin 0, mape = Fin 0 \<rparr>"

text \<open>
  The safety-stock share of a confidence, and the recommended stock for a finite
  forecasted demand \<open>d\<close> at that confidence, as the specification states them.
\<close>

definition safety_percent :: "number \<Rightarrow> real" where
  "safety_percent c = (if ngt c (Fin 80) then 0.1 else if ngt c (Fin 60) then 0.15 else 0.2)"

definition recommended_for :: "real \<Rightarrow> number \<Rightarrow> real" where
  "recommended_for d c = d + of_int (round (d * safety_percent c))"

text \<open>The risk level and the recommended stock of a result, when there is one.\<close>

definition risk_of :: "error + InventoryRecommendation \<Rightarrow> RiskLevel option" where
  "risk_of res = (case res of Inl _ \<Rightarrow> None | Inr r \<Rightarrow> Some (riskLevel r))"

definition stock_of :: "error + InventoryRecommendation \<Rightarrow> number option" where
  "stock_of res = (case res of Inl _ \<Rightarrow> None | Inr r \<Rightarrow> Some (recommendedStock r))"

text \<open>
  A dashboard on which a product is selected and a recommendation is shown, with the
  two sliders of the what-if simulation at the given positions.
\<close>

definition dashboard_with ::
  "Product \<Rightarrow> SalesDataPoint list \<Rightarrow> InventoryRecommendation option \<Rightarrow> number \<Rightarrow> number
    \<Rightarrow> Dashboard" where
  "dashboard_with product history rec stock discount =
     \<lparr> shopId = ''shop'',
       selectedProduct = Some product,
       salesData = history,
       forecast = None,
       recommendation = rec,
       insights = [],
       businessImpact = None,
       generating = False,
       whatIfStock = stock,
       whatIfDiscount = discount,
       whatIfResults = None,
       alerts = [],
       forecasts_table = [] \<rparr>"

definition product_with :: "number \<Rightarrow> number \<Rightarrow> Product" where
  "product_with stock price =
     \<lparr> pid = ''p1'', name = ''product'', brand = ''brand'',
       current_stock = stock, unit_price = price \<rparr>"

text \<open>A history of seven days, the least that the forecast action accepts.\<close>

definition seven_day_history :: "SalesDataPoint list" where
  "seven_day_history = history_of [10, 12, 11, 13, 14, 12, 15]"

section \<open>Arithmetic on finite numbers\<close>

lemma nle_Fin [simp]: "nle (Fin a) (Fin b) = (a \<le> b)"
  by (auto simp: nle_def)

lemma nge_Fin [simp]: "nge (Fin a) (Fin b) = (b \<le> a)"
  by (simp add: nge_def)

lemma ngt_Fin [simp]: "ngt (Fin a) (Fin b) = (b < a)"
  by (simp add: ngt_def)

lemma nmax_Fin [simp]: "nmax (Fin a) (Fin b) = Fin (max a b)"
  by (simp add: nmax_def max_def)

lemma nsub_Fin [simp]: "nsub (Fin a) (Fin b) = Fin (a - b)"
  by (simp add: nsub_def)

lemma nadd_NaN_right [simp]: "nadd x NaN = NaN"
  by (cases x) simp_all

lemma nsub_NaN [simp]: "nsub x NaN = NaN" "nsub NaN y = NaN"
  by (simp_all add: nsub_def)

lemma foldl_nadd_Fin: "foldl nadd (Fin a) (map Fin xs) = Fin (a + sum_list xs)"
  by (induction xs arbitrary: a) (simp_all add: add.assoc)

lemma nsum_Fin: "nsum (map Fin xs) = Fin (sum_list xs)"
  by (simp add: nsum_def foldl_nadd_Fin)

section \<open>The metrics loop and its closed form\<close>

lemma metrics_loop_closed:
  "n \<le> length actual \<Longrightarrow> n \<le> length predicted \<Longrightarrow>
   foldl (metrics_step (map Fin actual) (map Fin predicted)) (Fin 0, Fin 0, Fin 0) [0..<n] =
     (Fin (abs_errors actual predicted n), Fin (sq_errors actual predicted n),
      Fin (pct_errors actual predicted n))"
proof (induction n)
  case 0
  show ?case by (simp add: abs_errors_def sq_errors_def pct_errors_def)
next
  case (Suc n)
  then have IH: "foldl (metrics_step (map Fin actual) (map Fin predicted)) (Fin 0, Fin 0, Fin 0) [0..<n] =
     (Fin (abs_errors actual predicted n), Fin (sq_errors actual predicted n),
      Fin (pct_errors actual predicted n))" by simp
  from Suc.prems have lt: "n < length actual" "n < length predicted" by simp_all
  have "foldl (metrics_step (map Fin actual) (map Fin predicted)) (Fin 0, Fin 0, Fin 0) [0..<Suc n] =
        metrics_step (map Fin actual) (map Fin predicted)
          (Fin (abs_errors actual predicted n), Fin (sq_errors actual predicted n),
           Fin (pct_errors actual predicted n)) n"
    by (simp add: IH)
  also have "\<dots> = (Fin (abs_errors actual predicted (Suc n)), Fin (sq_errors actual predicted (Suc n)),
      Fin (pct_errors actual predicted (Suc n)))"
    using lt by (simp add: metrics_step_def nsub_def Let_def abs_errors_def sq_errors_def
        pct_errors_def power2_eq_square)
  finally show ?case .
qed

lemma sq_errors_nonneg: "0 \<le> sq_errors actual predicted n"
  by (simp add: sq_errors_def sum_nonneg)

lemma calculateMetrics_closed:
  assumes "n = min (length actual) (length predicted)"
  shows "calculateMetrics (map Fin actual) (map Fin predicted) =
     (if n = 0 then \<lparr> mae = NaN, rmse = NaN, mape = NaN \<rparr>
      else \<lparr> mae = Fin (abs_errors actual predicted n / real n),
             rmse = Fin (sqrt (sq_errors actual predicted n / real n)),
             mape = Fin (pct_errors actual predicted n / real n * 100) \<rparr>)"
proof -
  have "n \<le> length actual" "n \<le> length predicted" using assms by simp_all
  note L = metrics_loop_closed [OF this]
  have nn: "\<not> sq_errors actual predicted n / real n < 0"
    using sq_errors_nonneg [of actual predicted n] by (simp add: not_less)
  show ?thesis
  proof (cases "n = 0")
    case True
    then have "min (length actual) (length predicted) = 0" using assms by simp
    then show ?thesis using True
      by (simp add: calculateMetrics_def Let_def inf_of_sign_def del: min_less_iff_conj min.bounded_iff)
  next
    case False
    have "calculateMetrics (map Fin actual) (map Fin predicted) =
       (case (Fin (abs_errors actual predicted n), Fin (sq_errors actual predicted n),
              Fin (pct_errors actual predicted n)) of
        (mae_acc, mse_acc, mape_acc) \<Rightarrow>
          \<lparr> mae = ndiv mae_acc (Fin (real n)),
            rmse = nsqrt (ndiv mse_acc (Fin (real n))),
            mape = nmul (ndiv mape_acc (Fin (real n))) (Fin 100) \<rparr>)"
      unfolding calculateMetrics_def Let_def using assms L by simp
    then show ?thesis using False nn by simp
  qed
qed

lemma errors_identical:
  "abs_errors v v n = 0" "sq_errors v v n = 0" "pct_errors v v n = 0"
  by (auto simp: abs_errors_def sq_errors_def pct_errors_def intro!: sum.neutral)

text \<open>
  Claim C2, as amended. For every pair of sequences of reals, \<open>calculateMetrics\<close>
  compares the first \<open>n = min (length actual) (length predicted)\<close> elements of each
  and returns without an error: \<open>mae\<close> is the mean absolute error over those \<open>n\<close>
  indices, \<open>rmse\<close> the square root of the mean squared error, and \<open>mape\<close> is
  \<open>100\<close> times the sum, over the indices with a nonzero actual value, of
  \<open>\<bar>(actual\<^sub>i - predicted\<^sub>i) / actual\<^sub>i\<bar>\<close>, divided by \<open>n\<close>; an index with a zero
  actual value adds nothing to the sum and still counts in \<open>n\<close>. With \<open>n = 0\<close> the
  three means are \<open>0 / 0\<close>, that is \<open>NaN\<close>.
\<close>

theorem calculateMetrics_refines_closed_form:
  "calculateMetrics (map Fin actual) (map Fin predicted) = metrics_closed_form actual predicted"
  by (simp add: calculateMetrics_closed [OF refl] metrics_closed_form_def metrics_form_def
      Let_def mult.commute del: min_less_iff_conj min.bounded_iff)

text \<open>
  Claim C2 as written divides the absolute error by the actual value itself. On the
  actual value \<open>-2\<close> predicted as \<open>0\<close> the code returns a \<open>mape\<close> of \<open>100\<close>, the
  formula as written \<open>-100\<close>.
\<close>

theorem calculateMetrics_negative_actual_counterexample:
  "calculateMetrics (map Fin [- 2]) (map Fin [0]) \<noteq> metrics_as_written [- 2] [0] \<and>
   mape (calculateMetrics (map Fin [- 2]) (map Fin [0])) = Fin 100 \<and>
   mape (metrics_as_written [- 2] [0]) = Fin (- 100)"
proof -
  have "calculateMetrics (map Fin [- 2]) (map Fin [0]) =
          \<lparr> mae = Fin 2, rmse = Fin (sqrt 4), mape = Fin 100 \<rparr>"
    by (subst calculateMetrics_closed [OF refl])
       (simp add: abs_errors_def sq_errors_def pct_errors_def)
  then have code: "mape (calculateMetrics (map Fin [- 2]) (map Fin [0])) = Fin 100"
    by simp
  have written: "mape (metrics_as_written [- 2] [0]) = Fin (- 100)"
    by (simp add: metrics_as_written_def metrics_form_def pct_errors_as_written_def)
  have "calculateMetrics (map Fin [- 2]) (map Fin [0]) \<noteq> metrics_as_written [- 2] [0]"
  proof
    assume "calculateMetrics (map Fin [- 2]) (map Fin [0]) = metrics_as_written [- 2] [0]"
    then have "mape (calculateMetrics (map Fin [- 2]) (map Fin [0])) =
               mape (metrics_as_written [- 2] [0])"
      by (rule arg_cong)
    then show False unfolding code written by simp
  qed
  then show ?thesis using code written by blast
qed

text \<open>
  Claim C6. For every non-empty sequence \<open>v\<close> of reals, \<open>calculateMetrics(v, v)\<close>
  returns \<open>mae = 0\<close>, \<open>rmse = 0\<close> and \<open>mape = 0\<close>, and the confidence derived from it,
  \<open>max(0, 100 - mape)\<close>, is \<open>100\<close>.
\<close>

theorem calculateMetrics_identical:
  assumes "v \<noteq> []"
  shows "calculateMetrics (map Fin v) (map Fin v) = \<lparr> mae = Fin 0, rmse = Fin 0, mape = Fin 0 \<rparr> \<and>
         nmax (Fin 0) (nsub (Fin 100) (mape (calculateMetrics (map Fin v) (map Fin v)))) = Fin 100"
  using assms
  by (simp add: calculateMetrics_closed [OF refl] errors_identical nmax_def nsub_def)

theorem calculateMetrics_identical_witness:
  "[3, 0, 5 :: real] \<noteq> [] \<and>
   calculateMetrics (map Fin [3, 0, 5]) (map Fin [3, 0, 5]) = \<lparr> mae = Fin 0, rmse = Fin 0, mape = Fin 0 \<rparr> \<and>
   nmax (Fin 0) (nsub (Fin 100) (mape (calculateMetrics (map Fin [3, 0, 5]) (map Fin [3, 0, 5])))) = Fin 100"
  using calculateMetrics_identical [of "[3, 0, 5]"] by (simp add: nmax_def nsub_def)

section \<open>The worked example of the moving average\<close>

lemma upt_3_8: "[3..<8] = [3, 4, 5, 6, 7]"
  by (simp add: upt_rec)

lemma example_predictions:
  "map val (predictions (movingAverage t (history_of [10, 12, 11, 13, 14, 12, 15, 16]) 3)) =
     map Fin [11, 12, 13, 13, 14, 14]"
  by (simp add: movingAverage_def history_of_def Let_def nsum_def slice_last_def upt_3_8 round_def)

lemma example_metrics_args:
  "metrics (movingAverage t (history_of [10, 12, 11, 13, 14, 12, 15, 16]) 3) =
     calculateMetrics (map Fin [13, 14, 12, 15, 16]) (map Fin [11, 12, 13, 13, 14])"
  by (simp add: movingAverage_def history_of_def Let_def nsum_def slice_last_def upt_3_8 round_def)

lemma upt_0_5: "[0..<5] = [0, 1, 2, 3, 4]"
  by (simp add: upt_rec)

lemma example_scores:
  "calculateMetrics (map Fin [13, 14, 12, 15, 16]) (map Fin [11, 12, 13, 13, 14]) =
     \<lparr> mae = Fin 1.8, rmse = Fin (sqrt 3.4), mape = Fin (6971 / 546) \<rparr>"
  by (simp add: calculateMetrics_def upt_0_5 metrics_step_def nsub_def Let_def)

lemma sqrt_34_bounds: "\<bar>sqrt 3.4 - 1.844\<bar> < (0.0005 :: real)"
proof -
  have "(1.8435 :: real)\<^sup>2 < 3.4" by (simp add: power2_eq_square)
  then have lo: "1.8435 < sqrt (3.4 :: real)" by (rule real_less_rsqrt)
  have "(3.4 :: real) < 1.8445\<^sup>2" by (simp add: power2_eq_square)
  then have hi: "sqrt (3.4 :: real) < 1.8445" by (intro real_less_lsqrt) simp_all
  from lo have a: "- 0.0005 < sqrt (3.4 :: real) - 1.844" by simp
  from hi have b: "sqrt (3.4 :: real) - 1.844 < 0.0005" by simp
  show ?thesis unfolding abs_less_iff using a b by simp
qed

lemma movingAverage_confidence:
  "confidence (movingAverage t d w) =
     nmax (Fin 0) (nsub (Fin 100) (mape (metrics (movingAverage t d w))))"
  by (simp add: movingAverage_def Let_def)

text \<open>
  Claim C3. On the history with quantities \<open>10, 12, 11, 13, 14, 12, 15, 16\<close> and
  window \<open>3\<close>, the moving average fits \<open>11, 12, 13, 13, 14\<close> at the indices \<open>3\<close> to
  \<open>7\<close> and forecasts \<open>14\<close>; it scores the actual values \<open>13, 14, 12, 15, 16\<close>
  against these fitted values, which gives \<open>mae = 1.8\<close>, \<open>rmse = sqrt 3.4\<close> within
  \<open>0.0005\<close> of \<open>1.844\<close>, \<open>mape = 6971 / 546\<close> within \<open>0.005\<close> of \<open>12.77\<close>, and the
  confidence \<open>47629 / 546\<close> within \<open>0.005\<close> of \<open>87.23\<close>.
\<close>

theorem moving_average_worked_example:
  "map val (predictions (movingAverage t (history_of [10, 12, 11, 13, 14, 12, 15, 16]) 3)) =
     map Fin [11, 12, 13, 13, 14, 14] \<and>
   metrics (movingAverage t (history_of [10, 12, 11, 13, 14, 12, 15, 16]) 3) =
     calculateMetrics (map Fin [13, 14, 12, 15, 16]) (map Fin [11, 12, 13, 13, 14]) \<and>
   calculateMetrics (map Fin [13, 14, 12, 15, 16]) (map Fin [11, 12, 13, 13, 14]) =
     \<lparr> mae = Fin 1.8, rmse = Fin (sqrt 3.4), mape = Fin (6971 / 546) \<rparr> \<and>
   \<bar>sqrt 3.4 - 1.844\<bar> < (0.0005 :: real) \<and>
   \<bar>6971 / 546 - 12.77\<bar> < (0.005 :: real) \<and>
   confidence (movingAverage t (history_of [10, 12, 11, 13, 14, 12, 15, 16]) 3) =
     Fin (47629 / 546) \<and>
   \<bar>47629 / 546 - 87.23\<bar> < (0.005 :: real)"
proof -
  have "confidence (movingAverage t (history_of [10, 12, 11, 13, 14, 12, 15, 16]) 3) =
     Fin (47629 / 546)"
    by (simp only: movingAverage_confidence example_metrics_args example_scores)
       (simp add: nmax_def nsub_def)
  then show ?thesis
    using example_predictions [of t] example_metrics_args [of t] example_scores sqrt_34_bounds
    by simp
qed

section \<open>Inventory recommendation\<close>

lemma forecast_with_simps:
  "predictions (forecast_with ps d c m) \<noteq> []"
  "val (last (predictions (forecast_with ps d c m))) = d"
  "confidence (forecast_with ps d c m) = c"
  by (simp_all add: forecast_with_def)

lemma recommendation_finite:
  assumes "predictions fc \<noteq> []" and "val (last (predictions fc)) = Fin d"
  shows "\<exists>r. calculateInventoryRecommendation fc (Fin cs) = Inr r \<and>
           forecastedDemand r = Fin d \<and>
           safetyStock r = Fin (of_int (round (d * safety_percent (confidence fc)))) \<and>
           recommendedStock r = Fin (recommended_for d (confidence fc)) \<and>
           riskLevel r =
             (if recommended_for d (confidence fc) * 1.5 \<le> cs then Medium
              else if cs < d * 0.8 then High else Low)"
proof -
  obtain p ps where ps: "predictions fc = p # ps"
    using assms(1) by (cases "predictions fc") auto
  show ?thesis
    using assms(2) unfolding ps
    by (simp add: calculateInventoryRecommendation_def ps Let_def safety_percent_def
        recommended_for_def)
qed

lemma recommendation_stock:
  assumes "predictions fc \<noteq> []" and "val (last (predictions fc)) = Fin d"
  shows "\<exists>r. calculateInventoryRecommendation fc cs = Inr r \<and>
           forecastedDemand r = Fin d \<and>
           safetyStock r = Fin (of_int (round (d * safety_percent (confidence fc)))) \<and>
           recommendedStock r = Fin (recommended_for d (confidence fc))"
proof -
  obtain p ps where ps: "predictions fc = p # ps"
    using assms(1) by (cases "predictions fc") auto
  show ?thesis
    using assms(2) unfolding ps
    by (simp add: calculateInventoryRecommendation_def ps Let_def safety_percent_def
        recommended_for_def)
qed

lemma safety_percent_pos: "0 < safety_percent c"
  by (simp add: safety_percent_def)

lemma round_nonneg: "0 \<le> (x :: real) \<Longrightarrow> 0 \<le> round x"
  by (simp add: round_def)

text \<open>
  Claim C4. For every forecast whose final prediction is a non-negative integer \<open>k\<close>
  and every current stock, \<open>calculateInventoryRecommendation\<close> returns
  \<open>safetyStock = round (k * safetyStockPercent)\<close> and
  \<open>recommendedStock = forecastedDemand + safetyStock\<close>, which is also
  \<open>round forecastedDemand + safetyStock\<close>, and \<open>recommendedStock >= forecastedDemand\<close>.
\<close>

theorem recommendation_invariant:
  assumes "predictions fc \<noteq> []" and "val (last (predictions fc)) = Fin (real k)"
  shows "\<exists>r. calculateInventoryRecommendation fc cs = Inr r \<and>
           forecastedDemand r = Fin (real k) \<and>
           safetyStock r = Fin (of_int (round (real k * safety_percent (confidence fc)))) \<and>
           recommendedStock r = nadd (forecastedDemand r) (safetyStock r) \<and>
           recommendedStock r = nadd (nround (forecastedDemand r)) (safetyStock r) \<and>
           nge (recommendedStock r) (forecastedDemand r)"
proof -
  obtain r where r: "calculateInventoryRecommendation fc cs = Inr r"
      "forecastedDemand r = Fin (real k)"
      "safetyStock r = Fin (of_int (round (real k * safety_percent (confidence fc))))"
      "recommendedStock r = Fin (recommended_for (real k) (confidence fc))"
    using recommendation_stock [OF assms] by blast
  have "0 \<le> real k * safety_percent (confidence fc)"
    using safety_percent_pos [of "confidence fc"] by simp
  then have "0 \<le> round (real k * safety_percent (confidence fc))"
    by (rule round_nonneg)
  then show ?thesis
    using r by (simp add: recommended_for_def)
qed

theorem recommendation_invariant_witness:
  "predictions (forecast_with [] (Fin 20) (Fin 90) zero_metrics) \<noteq> [] \<and>
   val (last (predictions (forecast_with [] (Fin 20) (Fin 90) zero_metrics))) = Fin (real 20) \<and>
   (\<exists>r. calculateInventoryRecommendation (forecast_with [] (Fin 20) (Fin 90) zero_metrics) (Fin 5) = Inr r \<and>
        forecastedDemand r = Fin 20 \<and> safetyStock r = Fin 2 \<and> recommendedStock r = Fin 22 \<and>
        nge (recommendedStock r) (forecastedDemand r))"
proof -
  have a: "predictions (forecast_with [] (Fin 20) (Fin 90) zero_metrics) \<noteq> []"
    by (simp add: forecast_with_def)
  have b: "val (last (predictions (forecast_with [] (Fin 20) (Fin 90) zero_metrics))) = Fin (real 20)"
    by (simp add: forecast_with_def)
  have c: "confidence (forecast_with [] (Fin 20) (Fin 90) zero_metrics) = Fin 90"
    by (simp add: forecast_with_def)
  show ?thesis
    using a b recommendation_invariant [OF a b, of "Fin 5"]
    by (auto simp: c safety_percent_def round_def)
qed

text \<open>
  Claim C5. The three risk rules apply in order, the first match winning: for a finite
  forecasted demand \<open>d\<close> and current stock \<open>cs\<close> the risk is Medium when
  \<open>cs >= recommendedStock * 1.5\<close>, else High when \<open>cs < d * 0.8\<close>, else Low. A current
  stock of exactly \<open>recommendedStock * 1.5\<close> is Medium; a non-negative current stock one
  unit below \<open>d * 0.8\<close> is High; and a stock at or above \<open>recommendedStock * 1.5\<close> is
  never High.
\<close>

theorem risk_classification:
  assumes "predictions fc \<noteq> []" and "val (last (predictions fc)) = Fin d"
  shows "risk_of (calculateInventoryRecommendation fc (Fin cs)) =
           Some (if recommended_for d (confidence fc) * 1.5 \<le> cs then Medium
                 else if cs < d * 0.8 then High else Low) \<and>
         risk_of (calculateInventoryRecommendation fc
                    (Fin (recommended_for d (confidence fc) * 1.5))) = Some Medium \<and>
         (0 \<le> d * 0.8 - 1 \<longrightarrow>
            risk_of (calculateInventoryRecommendation fc (Fin (d * 0.8 - 1))) = Some High) \<and>
         (recommended_for d (confidence fc) * 1.5 \<le> cs \<longrightarrow>
            risk_of (calculateInventoryRecommendation fc (Fin cs)) \<noteq> Some High)"
proof -
  have risk: "risk_of (calculateInventoryRecommendation fc (Fin x)) =
           Some (if recommended_for d (confidence fc) * 1.5 \<le> x then Medium
                 else if x < d * 0.8 then High else Low)" for x
    using recommendation_finite [OF assms, of x] by (auto simp: risk_of_def)
  have below: "\<not> recommended_for d (confidence fc) * 1.5 \<le> d * 0.8 - 1" if "0 \<le> d * 0.8 - 1"
  proof -
    from that have d: "0 \<le> d" by simp
    then have "0 \<le> d * safety_percent (confidence fc)"
      using safety_percent_pos [of "confidence fc"] by simp
    then have "0 \<le> round (d * safety_percent (confidence fc))"
      by (rule round_nonneg)
    then have "d \<le> recommended_for d (confidence fc)"
      by (simp add: recommended_for_def)
    with d show ?thesis by simp
  qed
  show ?thesis
    using below by (simp add: risk)
qed

theorem risk_classification_witness:
  "predictions (forecast_with [] (Fin 20) (Fin 90) zero_metrics) \<noteq> [] \<and>
   val (last (predictions (forecast_with [] (Fin 20) (Fin 90) zero_metrics))) = Fin 20 \<and>
   recommended_for 20 (Fin 90) = 22 \<and>
   (0 :: real) \<le> 20 * 0.8 - 1 \<and>
   recommended_for 20 (Fin 90) * 1.5 \<le> 40 \<and>
   risk_of (calculateInventoryRecommendation (forecast_with [] (Fin 20) (Fin 90) zero_metrics)
              (Fin 40)) = Some Medium \<and>
   risk_of (calculateInventoryRecommendation (forecast_with [] (Fin 20) (Fin 90) zero_metrics)
              (Fin 33)) = Some Medium \<and>
   risk_of (calculateInventoryRecommendation (forecast_with [] (Fin 20) (Fin 90) zero_metrics)
              (Fin 15)) = Some High"
proof -
  have r: "recommended_for 20 (Fin 90) = 22"
    by (simp add: recommended_for_def safety_percent_def round_def)
  show ?thesis
    using risk_classification [where fc = "forecast_with [] (Fin 20) (Fin 90) zero_metrics"
        and d = 20 and cs = 40]
    by (simp add: forecast_with_simps r)
qed

text \<open>
  Claim C8, as amended. For a fixed forecasted demand \<open>d >= 0\<close>, the safety-stock share
  is \<open>0.10\<close> when \<open>confidence > 80\<close>, \<open>0.15\<close> when \<open>60 < confidence <= 80\<close> and \<open>0.20\<close>
  when \<open>confidence <= 60\<close>, and of two forecasts of that demand the one with the lower
  confidence never gets the smaller \<open>recommendedStock\<close>.
\<close>

theorem recommendation_monotone:
  assumes "predictions fc_lo \<noteq> []" and "val (last (predictions fc_lo)) = Fin d"
    and "predictions fc_hi \<noteq> []" and "val (last (predictions fc_hi)) = Fin d"
    and "confidence fc_lo = Fin c_lo" and "confidence fc_hi = Fin c_hi"
    and "0 \<le> d" and "c_lo \<le> c_hi"
  shows "\<exists>r_lo r_hi. calculateInventoryRecommendation fc_lo cs_lo = Inr r_lo \<and>
           calculateInventoryRecommendation fc_hi cs_hi = Inr r_hi \<and>
           safetyStock r_lo =
             Fin (of_int (round (d * (if 80 < c_lo then 0.1 else if 60 < c_lo then 0.15 else 0.2)))) \<and>
           safetyStock r_hi =
             Fin (of_int (round (d * (if 80 < c_hi then 0.1 else if 60 < c_hi then 0.15 else 0.2)))) \<and>
           nle (recommendedStock r_hi) (recommendedStock r_lo)"
proof -
  obtain r_lo where r_lo: "calculateInventoryRecommendation fc_lo cs_lo = Inr r_lo"
      "safetyStock r_lo = Fin (of_int (round (d * safety_percent (confidence fc_lo))))"
      "recommendedStock r_lo = Fin (recommended_for d (confidence fc_lo))"
    using recommendation_stock [OF assms(1,2)] by blast
  obtain r_hi where r_hi: "calculateInventoryRecommendation fc_hi cs_hi = Inr r_hi"
      "safetyStock r_hi = Fin (of_int (round (d * safety_percent (confidence fc_hi))))"
      "recommendedStock r_hi = Fin (recommended_for d (confidence fc_hi))"
    using recommendation_stock [OF assms(3,4)] by blast
  have "safety_percent (Fin c_hi) \<le> safety_percent (Fin c_lo)"
    using \<open>c_lo \<le> c_hi\<close> by (simp add: safety_percent_def)
  then have "d * safety_percent (Fin c_hi) \<le> d * safety_percent (Fin c_lo)"
    using \<open>0 \<le> d\<close> by (rule mult_left_mono)
  then have "round (d * safety_percent (Fin c_hi)) \<le> round (d * safety_percent (Fin c_lo))"
    by (rule round_mono)
  then have "recommended_for d (Fin c_hi) \<le> recommended_for d (Fin c_lo)"
    by (simp add: recommended_for_def)
  then show ?thesis
    using r_lo r_hi assms(5,6) by (simp add: safety_percent_def)
qed

theorem recommendation_monotone_witness:
  "\<exists>r_lo r_hi. calculateInventoryRecommendation (forecast_with [] (Fin 30) (Fin 50) zero_metrics) (Fin 0) = Inr r_lo \<and>
      calculateInventoryRecommendation (forecast_with [] (Fin 30) (Fin 90) zero_metrics) (Fin 0) = Inr r_hi \<and>
      safetyStock r_lo = Fin 6 \<and> safetyStock r_hi = Fin 3 \<and>
      nle (recommendedStock r_hi) (recommendedStock r_lo)"
  using recommendation_monotone [where fc_lo = "forecast_with [] (Fin 30) (Fin 50) zero_metrics"
      and fc_hi = "forecast_with [] (Fin 30) (Fin 90) zero_metrics"
      and d = 30 and c_lo = 50 and c_hi = 90 and cs_lo = "Fin 0" and cs_hi = "Fin 0"]
  by (simp add: forecast_with_simps round_def)

text \<open>
  Claim C8 as written holds for every forecasted demand. At the demand \<open>-10\<close> the
  recommended stock is \<open>-11\<close> at confidence \<open>90\<close> and \<open>-12\<close> at confidence \<open>50\<close>: the
  lower confidence gets the smaller stock.
\<close>

theorem recommendation_negative_demand_counterexample:
  "stock_of (calculateInventoryRecommendation
               (forecast_with [] (Fin (- 10)) (Fin 90) zero_metrics) (Fin 0)) = Some (Fin (- 11)) \<and>
   stock_of (calculateInventoryRecommendation
               (forecast_with [] (Fin (- 10)) (Fin 50) zero_metrics) (Fin 0)) = Some (Fin (- 12)) \<and>
   \<not> nle (Fin (- 11)) (Fin (- 12))"
  by (simp add: stock_of_def calculateInventoryRecommendation_def forecast_with_def Let_def
      round_def)

section \<open>Business impact\<close>

lemma nmul_zero_left: "nmul (Fin 0) up = Fin 0 \<or> nmul (Fin 0) up = NaN"
  by (cases up) (simp_all add: inf_of_sign_def)

lemma not_positive_zero_times:
  "\<not> ngt (nround (nmul (nmul (Fin 0) up) (Fin c))) (Fin 0)"
  "\<not> ngt (nround (nmul (Fin 0) up)) (Fin 0)"
  using nmul_zero_left [of up] by (auto simp: ngt_def)

text \<open>
  Claim C10. For every non-negative current stock and non-negative recommended stock,
  \<open>calculateBusinessImpact\<close> never returns both \<open>costSavings > 0\<close> and
  \<open>revenueIncrease > 0\<close>, whatever the unit price: a positive
  \<open>overstockAmount = max(0, currentStock - recommendedStock * 1.2)\<close> forces
  \<open>understockRisk = max(0, recommendedStock - currentStock)\<close> to be \<open>0\<close>, hence
  \<open>revenueIncrease = 0\<close>, and a positive \<open>understockRisk\<close> forces \<open>overstockAmount\<close> to
  be \<open>0\<close>, hence \<open>costSavings = 0\<close> (the last two for a finite unit price).
\<close>

theorem business_impact_exclusive:
  assumes "0 \<le> cs" and "0 \<le> rs"
  shows "\<not> (ngt (costSavings (calculateBusinessImpact (Fin cs) (Fin rs) fd up)) (Fin 0) \<and>
             ngt (revenueIncrease (calculateBusinessImpact (Fin cs) (Fin rs) fd up)) (Fin 0)) \<and>
         (0 < max 0 (cs - rs * 1.2) \<longrightarrow>
            max 0 (rs - cs) = 0 \<and>
            revenueIncrease (calculateBusinessImpact (Fin cs) (Fin rs) fd (Fin price)) = Fin 0) \<and>
         (0 < max 0 (rs - cs) \<longrightarrow>
            max 0 (cs - rs * 1.2) = 0 \<and>
            costSavings (calculateBusinessImpact (Fin cs) (Fin rs) fd (Fin price)) = Fin 0)"
proof -
  have over: "max 0 (rs - cs) = 0" if "0 < max 0 (cs - rs * 1.2)"
    using that assms by (simp add: max_def split: if_splits)
  have under: "max 0 (cs - rs * 1.2) = 0" if "0 < max 0 (rs - cs)"
    using that assms by (simp add: max_def split: if_splits)
  have excl: "max 0 (cs - rs * 1.2) = 0 \<or> max 0 (rs - cs) = 0"
    using over under by (cases "0 < max 0 (cs - rs * 1.2)") (auto simp: max_def)
  have a: "\<not> (ngt (costSavings (calculateBusinessImpact (Fin cs) (Fin rs) fd up)) (Fin 0) \<and>
             ngt (revenueIncrease (calculateBusinessImpact (Fin cs) (Fin rs) fd up)) (Fin 0))"
    using excl
  proof
    assume "max 0 (cs - rs * 1.2) = 0"
    then show ?thesis
      by (simp add: calculateBusinessImpact_def Let_def not_positive_zero_times)
  next
    assume "max 0 (rs - cs) = 0"
    then show ?thesis
      by (simp add: calculateBusinessImpact_def Let_def not_positive_zero_times)
  qed
  have b: "revenueIncrease (calculateBusinessImpact (Fin cs) (Fin rs) fd (Fin price)) = Fin 0"
    if "0 < max 0 (cs - rs * 1.2)"
    using over [OF that] by (simp add: calculateBusinessImpact_def Let_def)
  have c: "costSavings (calculateBusinessImpact (Fin cs) (Fin rs) fd (Fin price)) = Fin 0"
    if "0 < max 0 (rs - cs)"
    using under [OF that] by (simp add: calculateBusinessImpact_def Let_def)
  show ?thesis using a b c over under by blast
qed

theorem business_impact_exclusive_witness:
  "(0 :: real) \<le> 100 \<and> (0 :: real) \<le> 50 \<and> (0 :: real) < max 0 (100 - 50 * 1.2) \<and>
   costSavings (calculateBusinessImpact (Fin 100) (Fin 50) (Fin 45) (Fin 10)) = Fin 60 \<and>
   revenueIncrease (calculateBusinessImpact (Fin 100) (Fin 50) (Fin 45) (Fin 10)) = Fin 0 \<and>
   (0 :: real) \<le> 30 \<and> (0 :: real) < max 0 (50 - 30) \<and>
   costSavings (calculateBusinessImpact (Fin 30) (Fin 50) (Fin 45) (Fin 10)) = Fin 0 \<and>
   revenueIncrease (calculateBusinessImpact (Fin 30) (Fin 50) (Fin 45) (Fin 10)) = Fin 60"
proof -
  have "costSavings (calculateBusinessImpact (Fin 100) (Fin 50) (Fin 45) (Fin 10)) = Fin 60"
    by (simp add: calculateBusinessImpact_def Let_def round_def)
  moreover have "revenueIncrease (calculateBusinessImpact (Fin 30) (Fin 50) (Fin 45) (Fin 10)) = Fin 60"
    by (simp add: calculateBusinessImpact_def Let_def round_def)
  ultimately show ?thesis
    using business_impact_exclusive [where cs = 100 and rs = 50 and fd = "Fin 45" and price = 10]
      business_impact_exclusive [where cs = 30 and rs = 50 and fd = "Fin 45" and price = 10]
    by simp
qed

section \<open>What-if simulation\<close>

lemma recommendation_cases:
  assumes "predictions fc \<noteq> []" and "val (last (predictions fc)) = Fin d"
    and "calculateInventoryRecommendation fc cs = Inr r"
  shows "forecastedDemand r = Fin d"
    and "safetyStock r = Fin (of_int (round (d * safety_percent (confidence fc))))"
    and "recommendedStock r = Fin (recommended_for d (confidence fc))"
    and "riskLevel r =
           (if nge cs (Fin (recommended_for d (confidence fc) * 1.5)) then Medium
            else if nlt cs (Fin (d * 0.8)) then High else Low)"
proof -
  obtain p ps where ps: "predictions fc = p # ps"
    using assms(1) by (cases "predictions fc") auto
  show "forecastedDemand r = Fin d"
    and "safetyStock r = Fin (of_int (round (d * safety_percent (confidence fc))))"
    and "recommendedStock r = Fin (recommended_for d (confidence fc))"
    and "riskLevel r =
           (if nge cs (Fin (recommended_for d (confidence fc) * 1.5)) then Medium
            else if nlt cs (Fin (d * 0.8)) then High else Low)"
    using assms(2,3) unfolding ps
    by (auto simp: calculateInventoryRecommendation_def ps Let_def safety_percent_def
        recommended_for_def split: if_splits)
qed

lemma what_if_core:
  assumes "forecastedDemand r = Fin (of_int k)"
    and "safetyStock r = Fin (of_int m)"
    and "recommendedStock r = Fin (of_int k + of_int m)"
    and "riskLevel r =
           (if nge cs (Fin ((of_int k + of_int m) * 1.5)) then Medium
            else if nlt cs (Fin (of_int k * 0.8)) then High else Low)"
    and "recommendation s = Some r" and "selectedProduct s = Some product"
    and "whatIfDiscount s = Fin 0" and "whatIfStock s = cs"
  shows "\<exists>w. whatIfResults (runWhatIfSimulation s) = Some w \<and>
           newRiskLevel w = riskLevel r \<and>
           adjustedDemand w = forecastedDemand r \<and>
           adjustedRecommendedStock w = recommendedStock r"
proof -
  have "real_of_int (round (real_of_int k + real_of_int m)) = real_of_int k + real_of_int m"
  proof -
    have "real_of_int k + real_of_int m = of_int (k + m)" by simp
    then show ?thesis by (simp only: round_of_int)
  qed
  then show ?thesis
    using assms by (simp add: runWhatIfSimulation_def Let_def)
qed

text \<open>
  A recommendation made from a forecast whose forward prediction is an integer is
  repeated by the simulation at a discount of \<open>0\<close> and the same stock: the sum of
  the demand and the safety stock is then an integer, which the rounding of the
  simulation leaves alone.
\<close>

lemma what_if_integer_demand:
  assumes "predictions fc \<noteq> []" and "val (last (predictions fc)) = Fin (of_int k)"
    and "calculateInventoryRecommendation fc cs = Inr r"
    and "recommendation s = Some r" and "selectedProduct s = Some product"
    and "whatIfDiscount s = Fin 0" and "whatIfStock s = cs"
  shows "\<exists>w. whatIfResults (runWhatIfSimulation s) = Some w \<and>
           newRiskLevel w = riskLevel r \<and>
           adjustedDemand w = forecastedDemand r \<and>
           adjustedRecommendedStock w = recommendedStock r"
proof -
  note r = recommendation_cases [OF assms(1,2,3)]
  show ?thesis
    by (rule what_if_core [where k = k and m = "round (of_int k * safety_percent (confidence fc))"
          and cs = cs and product = product])
       (use r assms(4-7) in \<open>simp_all add: recommended_for_def\<close>)
qed

section \<open>The guard of the forecast action\<close>

text \<open>
  Claim C9. Whenever the sales history has fewer than \<open>7\<close> points,
  \<open>generateForecast\<close> does not run the pipeline: it shows the alert that asks for at
  least \<open>7\<close> days of data and leaves the forecast, the recommendation, the insights,
  the business impact and the \<open>forecasts\<close> table as they were.
\<close>

theorem insufficient_history_refused:
  assumes "length (salesData s) < 7"
  shows "generateForecast tomorrow s = Inr (s\<lparr> alerts := alerts s @ [insufficient_history] \<rparr>) \<and>
         (\<exists>s'. generateForecast tomorrow s = Inr s' \<and>
            forecast s' = forecast s \<and> recommendation s' = recommendation s \<and>
            insights s' = insights s \<and> businessImpact s' = businessImpact s \<and>
            forecasts_table s' = forecasts_table s \<and>
            alerts s' = alerts s @ [insufficient_history])"
  using assms by (simp add: generateForecast_def split: option.split)

theorem insufficient_history_refused_witness:
  "length (salesData (dashboard_with (product_with (Fin 5) (Fin 10))
             (history_of [10, 12, 11, 13, 14, 12]) None (Fin 5) (Fin 0))) < 7 \<and>
   (\<exists>s'. generateForecast ''tomorrow'' (dashboard_with (product_with (Fin 5) (Fin 10))
             (history_of [10, 12, 11, 13, 14, 12]) None (Fin 5) (Fin 0)) = Inr s' \<and>
      forecast s' = None \<and> recommendation s' = None \<and> insights s' = [] \<and>
      businessImpact s' = None \<and> forecasts_table s' = [] \<and>
      alerts s' = [insufficient_history])"
  using insufficient_history_refused [where tomorrow = "''tomorrow''" and
      s = "dashboard_with (product_with (Fin 5) (Fin 10))
             (history_of [10, 12, 11, 13, 14, 12]) None (Fin 5) (Fin 0)"]
  by (simp add: dashboard_with_def history_of_def)

section \<open>Model selection\<close>

subsection \<open>The sums of the regression\<close>

lemma sum_idx: "(\<Sum>i<n. real i) = real n * (real n - 1) / 2"
  by (induction n) (simp_all add: field_simps)

lemma sum_idx_sq: "(\<Sum>i<n. real i * real i) = real n * (real n - 1) * (2 * real n - 1) / 6"
  by (induction n) (simp_all add: field_simps)

lemma lr_denominator:
  assumes "2 \<le> n"
  shows "real n * (\<Sum>i<n. real i * real i) - (\<Sum>i<n. real i) * (\<Sum>i<n. real i) \<noteq> 0"
proof -
  have "real n * (\<Sum>i<n. real i * real i) - (\<Sum>i<n. real i) * (\<Sum>i<n. real i) =
        real n * real n * (real n - 1) * (real n + 1) / 12"
    unfolding sum_idx sum_idx_sq by (simp add: field_simps)
  moreover have "0 < real n * real n * (real n - 1) * (real n + 1) / 12"
    using assms by simp
  ultimately show ?thesis by simp
qed

lemma lr_sums:
  "n \<le> length qs \<Longrightarrow>
   foldl (lr_step (map Fin qs)) (Fin 0, Fin 0, Fin 0, Fin 0) [0..<n] =
     (Fin (\<Sum>i<n. real i), Fin (\<Sum>i<n. qs ! i), Fin (\<Sum>i<n. real i * qs ! i),
      Fin (\<Sum>i<n. real i * real i))"
proof (induction n)
  case 0
  show ?case by simp
next
  case (Suc n)
  then have IH: "foldl (lr_step (map Fin qs)) (Fin 0, Fin 0, Fin 0, Fin 0) [0..<n] =
     (Fin (\<Sum>i<n. real i), Fin (\<Sum>i<n. qs ! i), Fin (\<Sum>i<n. real i * qs ! i),
      Fin (\<Sum>i<n. real i * real i))" by simp
  from Suc.prems have lt: "n < length qs" by simp
  show ?case
    by (simp only: upt_Suc_append [OF le0] foldl_append foldl.simps IH)
       (simp add: lr_step_def lt)
qed

subsection \<open>Finite scores on a history that is long enough\<close>

lemma exponentialSmoothing_returns:
  "data \<noteq> [] \<Longrightarrow> \<exists>es. exponentialSmoothing tomorrow data alpha = Inr es"
  by (cases data) (simp_all add: exponentialSmoothing_def Let_def split: prod.split)

lemma mape_finite:
  assumes "0 < length actual" and "0 < length predicted"
  shows "\<exists>x. mape (calculateMetrics (map Fin actual) (map Fin predicted)) = Fin x"
  using assms by (simp add: calculateMetrics_closed [OF refl])

lemma movingAverage_metrics_finite:
  assumes "map quantity_sold data = map Fin qs" and "0 < w"
  shows "metrics (movingAverage tomorrow data w) =
     calculateMetrics (map Fin (drop w qs))
       (map Fin (map (\<lambda>i. of_int (round (sum_list (take w (drop (i - w) qs)) / real w)))
                     [w..<length qs]))"
proof -
  have len: "length data = length qs"
    using assms(1) by (metis length_map)
  show ?thesis
    using assms(2)
    by (simp add: movingAverage_def Let_def assms(1) len drop_map take_map nsum_Fin comp_def)
qed

lemma movingAverage_mape_finite:
  assumes "map quantity_sold data = map Fin qs" and "0 < w" and "w < length data"
  shows "\<exists>x. mape (metrics (movingAverage tomorrow data w)) = Fin x"
proof -
  have len: "length data = length qs"
    using assms(1) by (metis length_map)
  show ?thesis
    unfolding movingAverage_metrics_finite [OF assms(1,2)]
    by (rule mape_finite) (use assms(3) len in simp_all)
qed

lemma es_loop_finite:
  assumes "n \<le> length qs"
  shows "\<exists>f ps ys. foldl (es_step (Fin a) data (map Fin qs)) (Fin f0, ps0) [1..<n] =
                      (Fin f, ps0 @ ps) \<and>
                    map val ps = map Fin ys \<and> length ys = n - 1"
  using assms
proof (induction n)
  case 0
  have "map val [] = map Fin []" by simp
  then show ?case by fastforce
next
  case (Suc n)
  show ?case
  proof (cases "n = 0")
    case True
    have "map val [] = map Fin []" by simp
    then show ?thesis using True by fastforce
  next
    case False
    then have one: "1 \<le> n" by simp
    from Suc.prems have lt: "n < length qs" by simp
    from Suc.IH lt obtain f ps ys where
      IH: "foldl (es_step (Fin a) data (map Fin qs)) (Fin f0, ps0) [1..<n] = (Fin f, ps0 @ ps)"
      and ys: "map val ps = map Fin ys" "length ys = n - 1"
      by auto
    let ?g = "a * qs ! n + (1 - a) * f"
    let ?p = "\<lparr> pdate = date (data ! n), val = Fin (of_int (round ?g)) \<rparr>"
    have "foldl (es_step (Fin a) data (map Fin qs)) (Fin f0, ps0) [1..<Suc n] =
          es_step (Fin a) data (map Fin qs) (Fin f, ps0 @ ps) n"
      by (simp only: upt_Suc_append [OF one] foldl_append foldl.simps IH)
    also have "\<dots> = (Fin ?g, ps0 @ (ps @ [?p]))"
      using lt by (simp add: es_step_def Let_def)
    finally have step: "foldl (es_step (Fin a) data (map Fin qs)) (Fin f0, ps0) [1..<Suc n] =
          (Fin ?g, ps0 @ (ps @ [?p]))" .
    have "map val (ps @ [?p]) = map Fin (ys @ [of_int (round ?g)])"
      using ys by simp
    moreover have "length (ys @ [real_of_int (round ?g)]) = Suc n - 1"
      using ys one by simp
    ultimately show ?thesis using step by blast
  qed
qed

lemma exponentialSmoothing_mape_finite:
  assumes "map quantity_sold data = map Fin qs"
    and "exponentialSmoothing tomorrow data (Fin a) = Inr es"
  shows "\<exists>x. mape (metrics es) = Fin x"
proof -
  from assms(2) obtain d0 ds where data: "data = d0 # ds"
    by (cases data) (simp_all add: exponentialSmoothing_def)
  from assms(1) data obtain q0 qs' where qs: "qs = q0 # qs'" and q0: "quantity_sold d0 = Fin q0"
    by (cases qs) auto
  let ?first = "\<lparr> pdate = date d0, val = nround (quantity_sold d0) \<rparr>"
  obtain f ps ys where
    loop: "foldl (es_step (Fin a) data (map Fin qs)) (Fin q0, [?first]) [1..<length qs] =
             (Fin f, [?first] @ ps)"
    and ys: "map val ps = map Fin ys" "length ys = length qs - 1"
    using es_loop_finite [OF order_refl, of a data qs q0 "[?first]"] by blast
  have len: "length (map quantity_sold data) = length qs"
    by (simp add: assms(1))
  have "metrics es = calculateMetrics (map Fin qs) (map val ([?first] @ ps))"
    using assms(2) loop unfolding exponentialSmoothing_def data list.case Let_def
    unfolding data [symmetric] assms(1) q0 len
    by auto
  also have "map val ([?first] @ ps) = map Fin (of_int (round q0) # ys)"
    using ys q0 by simp
  finally have "metrics es = calculateMetrics (map Fin qs) (map Fin (of_int (round q0) # ys))" .
  then show ?thesis
    using mape_finite [of qs "of_int (round q0) # ys"] qs by simp
qed

lemma linearRegression_mape_finite:
  assumes "map quantity_sold data = map Fin qs" and "2 \<le> length data"
  shows "\<exists>x. mape (metrics (linearRegression tomorrow data)) = Fin x"
proof -
  have len: "length data = length qs"
    using assms(1) by (metis length_map)
  let ?n = "length qs"
  let ?sx = "\<Sum>i<?n. real i" and ?sy = "\<Sum>i<?n. qs ! i"
  let ?sxy = "\<Sum>i<?n. real i * qs ! i" and ?sxx = "\<Sum>i<?n. real i * real i"
  let ?slope = "(real ?n * ?sxy - ?sx * ?sy) / (real ?n * ?sxx - ?sx * ?sx)"
  let ?icpt = "(?sy - ?slope * ?sx) / real ?n"
  have den: "real ?n * ?sxx - ?sx * ?sx \<noteq> 0"
    using lr_denominator [of ?n] assms(2) len by simp
  have ne: "qs \<noteq> []"
    using assms(2) len by (cases qs) simp_all
  then have n0: "real ?n \<noteq> 0"
    by simp
  have sums: "foldl (lr_step (map Fin qs)) (Fin 0, Fin 0, Fin 0, Fin 0) [0..<?n] =
     (Fin ?sx, Fin ?sy, Fin ?sxy, Fin ?sxx)"
    by (rule lr_sums) simp
  have "metrics (linearRegression tomorrow data) =
        calculateMetrics (map Fin qs)
          (map Fin (map (\<lambda>i. max 0 (of_int (round (?slope * real i + ?icpt)))) [0..<?n]))"
    unfolding linearRegression_def Let_def assms(1) len sums
    using den n0 by (simp add: comp_def)
  then show ?thesis
    using mape_finite [of qs "map (\<lambda>i. max 0 (of_int (round (?slope * real i + ?icpt)))) [0..<?n]"]
      ne by simp
qed

subsection \<open>The sorted head\<close>

lemma sort_three:
  assumes "mape (metrics a) = Fin x" and "mape (metrics b) = Fin y" and "mape (metrics c) = Fin z"
  shows "hd (array_sort by_mape [a, b, c]) =
           (if x \<le> y \<and> x \<le> z then a else if y \<le> z then b else c)"
  using assms by (auto simp: array_sort_def by_mape_def)

text \<open>
  On a history of more than seven finite quantities the three scores are finite, and
  \<open>selectBestModel\<close> returns the moving average when its \<open>mape\<close> is at most the two
  others, else the exponential smoothing when its \<open>mape\<close> is at most that of the
  regression, else the regression: the lowest \<open>mape\<close>, the earlier model on a tie.
\<close>

lemma selectBestModel_lowest_mape:
  assumes "map quantity_sold data = map Fin qs" and "7 < length data"
  shows "\<exists>es x y z.
           exponentialSmoothing tomorrow data (Fin 0.3) = Inr es \<and>
           mape (metrics (movingAverage tomorrow data 7)) = Fin x \<and>
           mape (metrics es) = Fin y \<and>
           mape (metrics (linearRegression tomorrow data)) = Fin z \<and>
           selectBestModel tomorrow data =
             Inr (if x \<le> y \<and> x \<le> z then movingAverage tomorrow data 7
                  else if y \<le> z then es else linearRegression tomorrow data)"
proof -
  from assms(2) have "data \<noteq> []" by auto
  then obtain es where es: "exponentialSmoothing tomorrow data (Fin 0.3) = Inr es"
    using exponentialSmoothing_returns by blast
  obtain x where x: "mape (metrics (movingAverage tomorrow data 7)) = Fin x"
    using movingAverage_mape_finite [OF assms(1) _ assms(2)] by auto
  obtain y where y: "mape (metrics es) = Fin y"
    using exponentialSmoothing_mape_finite [OF assms(1) es] by auto
  obtain z where z: "mape (metrics (linearRegression tomorrow data)) = Fin z"
    using linearRegression_mape_finite [OF assms(1)] assms(2) by auto
  have "selectBestModel tomorrow data =
             Inr (if x \<le> y \<and> x \<le> z then movingAverage tomorrow data 7
                  else if y \<le> z then es else linearRegression tomorrow data)"
    by (simp add: selectBestModel_def es Let_def sort_three [OF x y z])
  then show ?thesis using es x y z by blast
qed

text \<open>
  The tie-break on a constant history of eight days: all three models score \<open>0\<close>, and
  the moving average, first in the evaluation order, is returned.
\<close>

lemma upt_1_8: "[1..<8] = [1, 2, 3, 4, 5, 6, 7]"
  by (simp add: upt_rec)

lemma upt_0_8: "[0..<8] = [0, 1, 2, 3, 4, 5, 6, 7]"
  by (simp add: upt_rec)

lemma upt_7_8: "[7..<8] = [7]"
  by (simp add: upt_rec)

lemma constant_history_scores:
  "mape (metrics (movingAverage tomorrow (history_of [10, 10, 10, 10, 10, 10, 10, 10]) 7)) = Fin 0"
  "\<exists>es. exponentialSmoothing tomorrow (history_of [10, 10, 10, 10, 10, 10, 10, 10]) (Fin 0.3) = Inr es \<and>
        mape (metrics es) = Fin 0"
  "mape (metrics (linearRegression tomorrow (history_of [10, 10, 10, 10, 10, 10, 10, 10]))) = Fin 0"
    apply (simp add: movingAverage_def history_of_def Let_def upt_7_8 nsum_def round_def
      calculateMetrics_def metrics_step_def nsub_def)
   apply (simp add: exponentialSmoothing_def history_of_def Let_def upt_1_8 upt_0_8 es_step_def
      round_def calculateMetrics_def metrics_step_def nsub_def)
  apply (simp add: linearRegression_def history_of_def Let_def upt_0_8 lr_step_def round_def
      calculateMetrics_def metrics_step_def nsub_def nmax_def)
  done

lemma constant_history_tie:
  "selectBestModel tomorrow (history_of [10, 10, 10, 10, 10, 10, 10, 10]) =
     Inr (movingAverage tomorrow (history_of [10, 10, 10, 10, 10, 10, 10, 10]) 7)"
proof -
  obtain es where es: "exponentialSmoothing tomorrow (history_of [10, 10, 10, 10, 10, 10, 10, 10]) (Fin 0.3) = Inr es"
    "mape (metrics es) = Fin 0"
    using constant_history_scores(2) by blast
  show ?thesis
    by (simp add: selectBestModel_def es(1) Let_def
        sort_three [OF constant_history_scores(1) es(2) constant_history_scores(3)])
qed

subsection \<open>A history no longer than the window\<close>

lemma calculateMetrics_no_overlap:
  "calculateMetrics [] predicted = \<lparr> mae = NaN, rmse = NaN, mape = NaN \<rparr>"
  by (simp add: calculateMetrics_def inf_of_sign_def)

lemma movingAverage_short:
  assumes "length data \<le> window"
  shows "metrics (movingAverage tomorrow data window) = \<lparr> mae = NaN, rmse = NaN, mape = NaN \<rparr>"
    and "confidence (movingAverage tomorrow data window) = NaN"
    and "model (movingAverage tomorrow data window) = ''Moving Average''"
  using assms by (simp_all add: movingAverage_def Let_def calculateMetrics_no_overlap nmax_def)

lemma sort_keeps_undefined_first:
  assumes "mape (metrics a) = NaN"
  shows "hd (array_sort by_mape [a, b, c]) = a"
  using assms by (simp add: array_sort_def by_mape_def)

lemma selectBestModel_short:
  assumes "data \<noteq> []" and "length data \<le> 7"
  shows "selectBestModel tomorrow data = Inr (movingAverage tomorrow data 7)"
proof -
  obtain es where es: "exponentialSmoothing tomorrow data (Fin 0.3) = Inr es"
    using exponentialSmoothing_returns [OF assms(1)] by blast
  have "mape (metrics (movingAverage tomorrow data 7)) = NaN"
    using movingAverage_short(1) [OF assms(2)] by simp
  then show ?thesis
    by (simp add: selectBestModel_def es Let_def sort_keeps_undefined_first)
qed

lemma upt_1_7: "[1..<7] = [1, 2, 3, 4, 5, 6]"
  by (simp add: upt_rec)
lemma upt_0_7: "[0..<7] = [0, 1, 2, 3, 4, 5, 6]"
  by (simp add: upt_rec)

lemma seven_day_smoothing:
  "\<exists>es. exponentialSmoothing tomorrow seven_day_history (Fin 0.3) = Inr es \<and>
        mape (metrics es) = Fin (14015 / 1911)"
  by (simp add: seven_day_history_def exponentialSmoothing_def history_of_def Let_def upt_1_7
      upt_0_7 es_step_def round_def calculateMetrics_def metrics_step_def nsub_def)

lemma seven_day_regression:
  "mape (metrics (linearRegression tomorrow seven_day_history)) = Fin (196975 / 21021)"
  by (simp add: seven_day_history_def linearRegression_def history_of_def Let_def upt_0_7
      lr_step_def round_def calculateMetrics_def metrics_step_def nsub_def nmax_def)

lemma recommendation_returns:
  "predictions fc \<noteq> [] \<Longrightarrow> \<exists>r. calculateInventoryRecommendation fc cs = Inr r"
  by (cases "predictions fc") (simp_all add: calculateInventoryRecommendation_def Let_def)

lemma movingAverage_predictions: "predictions (movingAverage tomorrow data window) \<noteq> []"
  by (simp add: movingAverage_def Let_def)

lemma seven_day_length: "seven_day_history \<noteq> []" "length seven_day_history = 7"
  by (simp_all add: seven_day_history_def history_of_def)

text \<open>
  Claim C1 at a history of seven days, which the forecast action accepts. The window of
  the moving average is \<open>7\<close>, so the model has no fitted point to score and its
  \<open>mape\<close> is \<open>NaN\<close>; the comparator then answers \<open>NaN\<close> for every pair with it, the
  sort leaves it first, and \<open>selectBestModel\<close> returns the moving average with an
  undefined \<open>mape\<close> and confidence, while the exponential smoothing scores
  \<open>14015 / 1911\<close> and the regression \<open>196975 / 21021\<close>. \<open>generateForecast\<close> stores
  that forecast.
\<close>

theorem selectBestModel_seven_day_history:
  "selectBestModel tomorrow seven_day_history = Inr (movingAverage tomorrow seven_day_history 7) \<and>
   model (movingAverage tomorrow seven_day_history 7) = ''Moving Average'' \<and>
   mape (metrics (movingAverage tomorrow seven_day_history 7)) = NaN \<and>
   confidence (movingAverage tomorrow seven_day_history 7) = NaN \<and>
   (\<exists>es. exponentialSmoothing tomorrow seven_day_history (Fin 0.3) = Inr es \<and>
         mape (metrics es) = Fin (14015 / 1911)) \<and>
   mape (metrics (linearRegression tomorrow seven_day_history)) = Fin (196975 / 21021) \<and>
   \<not> nle (mape (metrics (movingAverage tomorrow seven_day_history 7))) (Fin (14015 / 1911)) \<and>
   (\<exists>s'. generateForecast tomorrow
            (dashboard_with (product_with (Fin 5) (Fin 10)) seven_day_history None (Fin 5) (Fin 0)) =
            Inr s' \<and>
         forecast s' = Some (movingAverage tomorrow seven_day_history 7))"
proof -
  have sel: "selectBestModel tomorrow seven_day_history =
             Inr (movingAverage tomorrow seven_day_history 7)"
    by (rule selectBestModel_short) (simp_all add: seven_day_length)
  have short: "length seven_day_history \<le> 7"
    by (simp add: seven_day_length)
  note ma = movingAverage_short [OF short, of tomorrow]
  have undefined_score: "mape (metrics (movingAverage tomorrow seven_day_history 7)) = NaN"
    using ma(1) by simp
  obtain r where r: "calculateInventoryRecommendation (movingAverage tomorrow seven_day_history 7)
                       (Fin 5) = Inr r"
    using recommendation_returns [OF movingAverage_predictions] by blast
  have stored: "\<exists>s'. generateForecast tomorrow
            (dashboard_with (product_with (Fin 5) (Fin 10)) seven_day_history None (Fin 5) (Fin 0)) =
            Inr s' \<and>
         forecast s' = Some (movingAverage tomorrow seven_day_history 7)"
    by (simp add: generateForecast_def dashboard_with_def product_with_def seven_day_length sel r)
  have "\<not> nle (mape (metrics (movingAverage tomorrow seven_day_history 7))) (Fin (14015 / 1911))"
    by (simp add: undefined_score nle_def)
  then show ?thesis
    using sel ma undefined_score seven_day_smoothing [of tomorrow]
      seven_day_regression [of tomorrow] stored
    by blast
qed

section \<open>The simulation after a forecast\<close>

text \<open>
  On a history of at least two finite quantities each model ends with a rounded, finite
  forward prediction, so the forecast that \<open>selectBestModel\<close> returns has an integer
  forecasted demand.
\<close>

lemma movingAverage_forward_integer:
  assumes "map quantity_sold data = map Fin qs" and "0 < w"
  shows "\<exists>k. val (last (predictions (movingAverage tomorrow data w))) = Fin (of_int k)"
  using assms(2)
  by (simp add: movingAverage_def Let_def assms(1) slice_last_def drop_map nsum_Fin)

lemma exponentialSmoothing_forward_integer:
  assumes "map quantity_sold data = map Fin qs"
    and "exponentialSmoothing tomorrow data (Fin a) = Inr es"
  shows "\<exists>k. val (last (predictions es)) = Fin (of_int k)"
proof -
  from assms(2) obtain d0 ds where data: "data = d0 # ds"
    by (cases data) (simp_all add: exponentialSmoothing_def)
  from assms(1) data obtain q0 qs' where qs: "qs = q0 # qs'" and q0: "quantity_sold d0 = Fin q0"
    by (cases qs) auto
  let ?first = "\<lparr> pdate = date d0, val = nround (quantity_sold d0) \<rparr>"
  obtain f ps ys where
    loop: "foldl (es_step (Fin a) data (map Fin qs)) (Fin q0, [?first]) [1..<length qs] =
             (Fin f, [?first] @ ps)"
    using es_loop_finite [OF order_refl, of a data qs q0 "[?first]"] by blast
  have len: "length (map quantity_sold data) = length qs"
    by (simp add: assms(1))
  have "val (last (predictions es)) = nround (Fin f)"
    using assms(2) loop unfolding exponentialSmoothing_def data list.case Let_def
    unfolding data [symmetric] assms(1) q0 len
    by auto
  then show ?thesis by simp
qed

lemma linearRegression_forward_integer:
  assumes "map quantity_sold data = map Fin qs" and "2 \<le> length data"
  shows "\<exists>k. val (last (predictions (linearRegression tomorrow data))) = Fin (of_int k)"
proof -
  have len: "length data = length qs"
    using assms(1) by (metis length_map)
  let ?n = "length qs"
  let ?sx = "\<Sum>i<?n. real i" and ?sy = "\<Sum>i<?n. qs ! i"
  let ?sxy = "\<Sum>i<?n. real i * qs ! i" and ?sxx = "\<Sum>i<?n. real i * real i"
  let ?slope = "(real ?n * ?sxy - ?sx * ?sy) / (real ?n * ?sxx - ?sx * ?sx)"
  let ?icpt = "(?sy - ?slope * ?sx) / real ?n"
  have den: "real ?n * ?sxx - ?sx * ?sx \<noteq> 0"
    using lr_denominator [of ?n] assms(2) len by simp
  have ne: "qs \<noteq> []"
    using assms(2) len by (cases qs) simp_all
  then have n0: "real ?n \<noteq> 0"
    by simp
  have sums: "foldl (lr_step (map Fin qs)) (Fin 0, Fin 0, Fin 0, Fin 0) [0..<?n] =
     (Fin ?sx, Fin ?sy, Fin ?sxy, Fin ?sxx)"
    by (rule lr_sums) simp
  have "val (last (predictions (linearRegression tomorrow data))) =
        Fin (max 0 (of_int (round (?slope * real ?n + ?icpt))))"
    unfolding linearRegression_def Let_def assms(1) len sums
    using den n0 by simp
  also have "max 0 (real_of_int (round (?slope * real ?n + ?icpt))) =
             of_int (max 0 (round (?slope * real ?n + ?icpt)))"
    by (simp add: max_def)
  finally show ?thesis by blast
qed

lemma sort_head_member: "hd (array_sort cmp [a, b, c]) \<in> {a, b, c}"
  by (simp add: array_sort_def)

lemma selectBestModel_forward_integer:
  assumes "map quantity_sold data = map Fin qs" and "2 \<le> length data"
    and "selectBestModel tomorrow data = Inr fc"
  shows "predictions fc \<noteq> [] \<and> (\<exists>k. val (last (predictions fc)) = Fin (of_int k))"
proof -
  from assms(3) obtain es where es: "exponentialSmoothing tomorrow data (Fin 0.3) = Inr es"
    by (auto simp: selectBestModel_def split: sum.splits)
  have fc: "fc \<in> {movingAverage tomorrow data 7, es, linearRegression tomorrow data}"
    using assms(3) sort_head_member [of by_mape "movingAverage tomorrow data 7" es
        "linearRegression tomorrow data"]
    by (simp add: selectBestModel_def es Let_def)
  have "predictions es \<noteq> []"
    using es by (auto simp: exponentialSmoothing_def Let_def split: list.splits prod.splits)
  moreover have "predictions (linearRegression tomorrow data) \<noteq> []"
    by (simp add: linearRegression_def Let_def split: prod.splits)
  moreover note movingAverage_predictions [of tomorrow data 7]
    movingAverage_forward_integer [OF assms(1), of 7 tomorrow]
    exponentialSmoothing_forward_integer [OF assms(1) es]
    linearRegression_forward_integer [OF assms(1,2), of tomorrow]
  ultimately show ?thesis using fc by auto
qed

lemma generateForecast_runs:
  assumes "\<not> length (salesData s) < 7" and "selectedProduct s = Some product"
    and "selectBestModel tomorrow (salesData s) = Inr fc"
    and "calculateInventoryRecommendation fc (current_stock product) = Inr r"
  shows "\<exists>s'. generateForecast tomorrow s = Inr s' \<and>
           forecast s' = Some fc \<and> recommendation s' = Some r \<and>
           selectedProduct s' = Some product"
  using assms by (simp add: generateForecast_def Let_def)

lemma constant_history_forecast:
  "val (last (predictions (movingAverage tomorrow
          (history_of [10, 10, 10, 10, 10, 10, 10, 10]) 7))) = Fin (of_int 10)"
  "confidence (movingAverage tomorrow (history_of [10, 10, 10, 10, 10, 10, 10, 10]) 7) = Fin 100"
   apply (simp add: movingAverage_def history_of_def Let_def upt_7_8 nsum_def slice_last_def
      round_def)
  apply (simp add: movingAverage_confidence constant_history_scores(1))
  done

text \<open>
  Claim C7. A recommendation exists on the dashboard only as
  \<open>calculateInventoryRecommendation\<close> makes it, in \<open>generateForecast\<close>, from the
  forecast that \<open>selectBestModel\<close> returns and the current stock of the product. For
  every such recommendation, on a history of at least seven finite quantities, the
  what-if simulation with a discount of \<open>0\<close> and the stock at that current stock gives
  the risk level of the recommendation, an adjusted demand equal to its forecasted
  demand, and an adjusted recommended stock equal to its recommended stock; the
  simulation reuses the safety stock of the recommendation.
\<close>

theorem what_if_after_forecast:
  assumes "map quantity_sold (salesData s) = map Fin qs" and "7 \<le> length (salesData s)"
    and "selectedProduct s = Some product"
  shows "\<exists>s' fc r w. generateForecast tomorrow s = Inr s' \<and>
           selectBestModel tomorrow (salesData s) = Inr fc \<and>
           calculateInventoryRecommendation fc (current_stock product) = Inr r \<and>
           recommendation s' = Some r \<and>
           whatIfResults (runWhatIfSimulation
             (s'\<lparr> whatIfStock := current_stock product, whatIfDiscount := Fin 0 \<rparr>)) = Some w \<and>
           newRiskLevel w = riskLevel r \<and>
           adjustedDemand w = forecastedDemand r \<and>
           adjustedRecommendedStock w = recommendedStock r"
proof -
  from assms(2) have "salesData s \<noteq> []" by auto
  then obtain es where es: "exponentialSmoothing tomorrow (salesData s) (Fin 0.3) = Inr es"
    using exponentialSmoothing_returns by blast
  then obtain fc where fc: "selectBestModel tomorrow (salesData s) = Inr fc"
    by (simp add: selectBestModel_def Let_def)
  from assms(2) have "2 \<le> length (salesData s)" by simp
  from selectBestModel_forward_integer [OF assms(1) this fc]
  obtain k where k: "predictions fc \<noteq> []" "val (last (predictions fc)) = Fin (of_int k)"
    by blast
  obtain r where r: "calculateInventoryRecommendation fc (current_stock product) = Inr r"
    using recommendation_returns [OF k(1)] by blast
  from assms(2) have long: "\<not> length (salesData s) < 7" by simp
  obtain s' where s': "generateForecast tomorrow s = Inr s'"
    "recommendation s' = Some r" "selectedProduct s' = Some product"
    using generateForecast_runs [OF long assms(3) fc r] by blast
  note rc = recommendation_cases [OF k r]
  let ?s = "s'\<lparr> whatIfStock := current_stock product, whatIfDiscount := Fin 0 \<rparr>"
  have "\<exists>w. whatIfResults (runWhatIfSimulation ?s) = Some w \<and>
           newRiskLevel w = riskLevel r \<and>
           adjustedDemand w = forecastedDemand r \<and>
           adjustedRecommendedStock w = recommendedStock r"
    by (rule what_if_core [where k = k and m = "round (of_int k * safety_percent (confidence fc))"
          and cs = "current_stock product" and product = product])
       (use rc s' in \<open>simp_all add: recommended_for_def\<close>)
  then show ?thesis using s' fc r by blast
qed

theorem what_if_after_forecast_witness:
  "map quantity_sold (salesData (dashboard_with (product_with (Fin 5) (Fin 10))
       (history_of [10, 10, 10, 10, 10, 10, 10, 10]) None (Fin 5) (Fin 0))) =
     map Fin [10, 10, 10, 10, 10, 10, 10, 10] \<and>
   7 \<le> length (salesData (dashboard_with (product_with (Fin 5) (Fin 10))
       (history_of [10, 10, 10, 10, 10, 10, 10, 10]) None (Fin 5) (Fin 0))) \<and>
   selectedProduct (dashboard_with (product_with (Fin 5) (Fin 10))
       (history_of [10, 10, 10, 10, 10, 10, 10, 10]) None (Fin 5) (Fin 0)) =
     Some (product_with (Fin 5) (Fin 10)) \<and>
   (\<exists>s' r w. generateForecast ''tomorrow'' (dashboard_with (product_with (Fin 5) (Fin 10))
         (history_of [10, 10, 10, 10, 10, 10, 10, 10]) None (Fin 5) (Fin 0)) = Inr s' \<and>
       recommendation s' = Some r \<and>
       whatIfResults (runWhatIfSimulation
         (s'\<lparr> whatIfStock := Fin 5, whatIfDiscount := Fin 0 \<rparr>)) = Some w \<and>
       forecastedDemand r = Fin 10 \<and> adjustedDemand w = Fin 10 \<and>
       riskLevel r = High \<and> newRiskLevel w = High)"
proof -
  let ?h = "history_of [10, 10, 10, 10, 10, 10, 10, 10]"
  let ?p = "product_with (Fin 5) (Fin 10)"
  let ?s = "dashboard_with ?p ?h None (Fin 5) (Fin 0)"
  have h1: "map quantity_sold (salesData ?s) = map Fin [10, 10, 10, 10, 10, 10, 10, 10]"
    by (simp add: dashboard_with_def history_of_def)
  have h2: "7 \<le> length (salesData ?s)"
    by (simp add: dashboard_with_def history_of_def)
  have h3: "selectedProduct ?s = Some ?p"
    by (simp add: dashboard_with_def)
  have data: "salesData ?s = ?h" and stock: "current_stock ?p = Fin 5"
    by (simp_all add: dashboard_with_def product_with_def)
  from what_if_after_forecast [OF h1 h2 h3, of "''tomorrow''"]
  obtain s' fc r w where run: "generateForecast ''tomorrow'' ?s = Inr s'"
    and fc: "selectBestModel ''tomorrow'' ?h = Inr fc"
    and r: "calculateInventoryRecommendation fc (Fin 5) = Inr r"
    and shown: "recommendation s' = Some r"
    and w: "whatIfResults (runWhatIfSimulation
              (s'\<lparr> whatIfStock := Fin 5, whatIfDiscount := Fin 0 \<rparr>)) = Some w"
      "newRiskLevel w = riskLevel r" "adjustedDemand w = forecastedDemand r"
    unfolding data stock by blast
  from fc have fc_ma: "fc = movingAverage ''tomorrow'' ?h 7"
    by (simp add: constant_history_tie)
  have fd: "forecastedDemand r = Fin 10" and risk: "riskLevel r = High"
    using recommendation_cases [OF movingAverage_predictions constant_history_forecast(1)
        r [unfolded fc_ma]]
    by (simp_all add: constant_history_forecast(2) recommended_for_def safety_percent_def
        round_def)
  show ?thesis
    using h1 h2 h3 run shown w fd risk by auto
qed

end
